theory Spec2Isabelle
  imports Main "HOL-Library.Word" "HOL-Library.Sublist"
begin

section \<open>JavaScript strings\<close>

text \<open>
  A JavaScript string is a sequence of UTF-16 code units. \<open>split\<close>, \<open>trim\<close>,
  \<open>includes\<close>, \<open>replace\<close> and \<open>substring\<close> all work on code units, so a string is a
  list of 16-bit words. \<open>js\<close> embeds an ASCII literal.
\<close>

type_synonym jschar = "16 word"
type_synonym jsstring = "jschar list"

definition js :: "string \<Rightarrow> jsstring" where
  "js s = map of_char s"

definition TAB :: jschar where "TAB = 0x09"
definition NL :: jschar where "NL = 0x0A"
definition CR :: jschar where "CR = 0x0D"
definition SEMI :: jschar where "SEMI = 0x3B"

text \<open>
  The code units that \<open>String.prototype.trim\<close> strips: ECMAScript WhiteSpace
  (TAB, VT, FF, SP, NBSP, ZWNBSP and the space separators) and LineTerminator
  (LF, CR, LS, PS).
\<close>

definition isWhiteSpace :: "jschar \<Rightarrow> bool" where
  "isWhiteSpace c \<longleftrightarrow>
     c = 0x09 \<or> c = 0x0A \<or> c = 0x0B \<or> c = 0x0C \<or> c = 0x0D \<or> c = 0x20 \<or>
     c = 0xA0 \<or> c = 0x1680 \<or> (0x2000 \<le> c \<and> c \<le> 0x200A) \<or>
     c = 0x2028 \<or> c = 0x2029 \<or> c = 0x202F \<or> c = 0x205F \<or> c = 0x3000 \<or> c = 0xFEFF"

definition trim :: "jsstring \<Rightarrow> jsstring" where
  "trim s = rev (dropWhile isWhiteSpace (rev (dropWhile isWhiteSpace s)))"

text \<open>A string is truthy exactly when it is not empty.\<close>

definition truthy :: "jsstring \<Rightarrow> bool" where
  "truthy s \<longleftrightarrow> s \<noteq> []"

text \<open>
  \<open>s.split(sep)\<close> for a separator of one code unit: the pieces between the separators,
  empty pieces included; the empty string gives one empty piece.
\<close>

fun jsSplit :: "jschar \<Rightarrow> jsstring \<Rightarrow> jsstring list" where
  "jsSplit sep [] = [[]]"
| "jsSplit sep (c # cs) =
     (let r = jsSplit sep cs in if c = sep then [] # r else (c # hd r) # tl r)"

text \<open>\<open>xs.join(sep)\<close> for a separator of one code unit.\<close>

fun jsJoin :: "jschar \<Rightarrow> jsstring list \<Rightarrow> jsstring" where
  "jsJoin sep [] = []"
| "jsJoin sep [x] = x"
| "jsJoin sep (x # y # ys) = x @ sep # jsJoin sep (y # ys)"

section \<open>RecordExtractor: parseContactsFromDelimitedData\<close>

record contact =
  name :: jsstring
  firstName :: jsstring
  lastName :: jsstring
  organization :: jsstring
  note' :: jsstring
  birthday :: jsstring
  emails :: "jsstring list"
  phones :: "jsstring list"

text \<open>\<open>fields[i] || ''\<close>: the field when it is truthy, the empty string otherwise.\<close>

definition orEmpty :: "jsstring \<Rightarrow> jsstring" where
  "orEmpty s = (if truthy s then s else [])"

text \<open>\<open>f ? f.split(';').filter(e => e.trim()) : []\<close>\<close>

definition splitList :: "jsstring \<Rightarrow> jsstring list" where
  "splitList f = (if truthy f then filter (\<lambda>e. truthy (trim e)) (jsSplit SEMI f) else [])"

text \<open>The object literal built from a line's fields; it is only reached with at least 8 fields.\<close>

definition contactOfFields :: "jsstring list \<Rightarrow> contact" where
  "contactOfFields flds =
     \<lparr> name = orEmpty (flds ! 0),
       firstName = orEmpty (flds ! 1),
       lastName = orEmpty (flds ! 2),
       organization = orEmpty (flds ! 3),
       note' = orEmpty (flds ! 4),
       birthday = orEmpty (flds ! 5),
       emails = splitList (flds ! 6),
       phones = splitList (flds ! 7) \<rparr>"

text \<open>
  The \<open>for (const line of lines)\<close> loop with the array \<open>contacts\<close> it pushes to. The body
  sits in a \<open>try\<close> block, but on strings none of \<open>split\<close>, \<open>filter\<close>, \<open>trim\<close>, indexing
  and \<open>push\<close> throws, so the \<open>catch\<close> branch is never entered and the loop is a total
  function.
\<close>

fun parseLoop :: "jsstring list \<Rightarrow> contact list \<Rightarrow> contact list" where
  "parseLoop [] contacts = contacts"
| "parseLoop (line # rest) contacts =
     (let flds = jsSplit TAB line in
      if 8 \<le> length flds then parseLoop rest (contacts @ [contactOfFields flds])
      else parseLoop rest contacts)"

definition parseContactsFromDelimitedData :: "jsstring \<Rightarrow> contact list" where
  "parseContactsFromDelimitedData data =
     parseLoop (filter (\<lambda>line. truthy (trim line)) (jsSplit NL data)) []"

section \<open>ContactIndex: matchesQuery\<close>

text \<open>
  \<open>s.includes(t)\<close>: \<open>t\<close> occurs in \<open>s\<close> at some position.
\<close>

fun jsIncludes :: "jsstring \<Rightarrow> jsstring \<Rightarrow> bool" where
  "jsIncludes [] t = (t = [])"
| "jsIncludes (c # cs) t = (prefix t (c # cs) \<or> jsIncludes cs t)"

text \<open>
  The array \<open>searchableFields\<close> after \<open>.filter(Boolean)\<close>. A parsed contact always has
  its two arrays, so \<open>contact.emails || []\<close> is the array itself.
\<close>

definition searchableFields :: "contact \<Rightarrow> jsstring list" where
  "searchableFields c =
     filter truthy
       ([name c, firstName c, lastName c, organization c, note' c] @ emails c @ phones c)"

text \<open>
  \<open>query\<close> is \<open>None\<close> when the caller passes none. \<open>String.prototype.toLowerCase\<close>
  follows the Unicode case tables, which are not part of the repository: the function
  is a parameter.
\<close>

definition matchesQuery :: "(jsstring \<Rightarrow> jsstring) \<Rightarrow> contact \<Rightarrow> jsstring option \<Rightarrow> bool" where
  "matchesQuery toLowerCase c query =
     (case query of
        None \<Rightarrow> True
      | Some q \<Rightarrow>
          if \<not> truthy q then True
          else (let searchText = toLowerCase q in
                list_ex (\<lambda>field. jsIncludes (toLowerCase field) searchText)
                  (searchableFields c)))"

section \<open>ContactIndex: isUpcomingBirthday\<close>

text \<open>
  What the function asks of JavaScript's \<open>Date\<close>. A date is its time value, the
  milliseconds since the epoch, and \<open>None\<close> is the invalid date (time value \<open>NaN\<close>).
  Parsing a string and the local calendar depend on the host and its time zone, so they
  are parameters: \<open>dateNow\<close> is \<open>new Date()\<close>, \<open>dateParse\<close> is \<open>new Date(text)\<close>,
  \<open>makeDate y m d\<close> is \<open>new Date(y, m, d)\<close>, \<open>setFullYear t y\<close> is the time value after
  \<open>setFullYear(y)\<close> on a date with time value \<open>t\<close>, and \<open>getFullYear\<close>, \<open>getMonth\<close>,
  \<open>getDate\<close> read a valid date in local time.
\<close>

record dateHost =
  dateNow :: int
  dateParse :: "jsstring \<Rightarrow> int option"
  getFullYear :: "int \<Rightarrow> int"
  getMonth :: "int \<Rightarrow> int"
  getDate :: "int \<Rightarrow> int"
  makeDate :: "int \<Rightarrow> int \<Rightarrow> int \<Rightarrow> int option"
  setFullYear :: "int \<Rightarrow> int \<Rightarrow> int option"

text \<open>
  \<open>Math.ceil(timeDiff / (1000 * 3600 * 24))\<close>: both numbers are integers below
  \<open>2^53\<close>, where the floating-point quotient rounds up to the same integer as the exact
  one.
\<close>

definition msPerDay :: int where
  "msPerDay = 1000 * 3600 * 24"

definition ceilDiv :: "int \<Rightarrow> int \<Rightarrow> int" where
  "ceilDiv a b = - ((- a) div b)"

text \<open>
  \<open>birthdayText\<close> and \<open>days\<close> are \<open>None\<close> when absent; \<open>!days\<close> also holds for 0. An
  invalid date makes every later comparison false, so the function returns false. Nothing
  in the \<open>try\<close> block throws.
\<close>

definition isUpcomingBirthday :: "dateHost \<Rightarrow> jsstring option \<Rightarrow> int option \<Rightarrow> bool" where
  "isUpcomingBirthday host birthdayText days =
     (case (birthdayText, days) of
        (None, _) \<Rightarrow> False
      | (_, None) \<Rightarrow> False
      | (Some b, Some n) \<Rightarrow>
          if \<not> truthy b \<or> n = 0 then False
          else
            (case dateParse host b of
               None \<Rightarrow> False
             | Some birthDate \<Rightarrow>
                 let today = dateNow host;
                     currentYear = getFullYear host today
                 in (case makeDate host currentYear (getMonth host birthDate) (getDate host birthDate) of
                       None \<Rightarrow> False
                     | Some thisYearBirthday \<Rightarrow>
                         (case (if thisYearBirthday < today
                                then setFullYear host thisYearBirthday (currentYear + 1)
                                else Some thisYearBirthday) of
                            None \<Rightarrow> False
                          | Some nextBirthday \<Rightarrow>
                              let timeDiff = nextBirthday - today;
                                  daysDiff = ceilDiv timeDiff msPerDay
                              in daysDiff \<ge> 0 \<and> daysDiff \<le> n))))"

section \<open>ScriptRunner: executeAppleScript\<close>

text \<open>Code units the runner and the shell treat specially.\<close>

definition QUOTE :: jschar where "QUOTE = 0x27"
definition BACKSLASH :: jschar where "BACKSLASH = 0x5C"
definition SPACE :: jschar where "SPACE = 0x20"
definition MINUS :: jschar where "MINUS = 0x2D"

text \<open>
  \<open>s.replace(/p/g, r)\<close> for a pattern of one literal code unit and a replacement
  without \<open>$\<close>: every occurrence of \<open>p\<close> becomes \<open>r\<close>.
\<close>

fun replaceAll :: "jschar \<Rightarrow> jsstring \<Rightarrow> jsstring \<Rightarrow> jsstring" where
  "replaceAll p r [] = []"
| "replaceAll p r (c # cs) = (if c = p then r @ replaceAll p r cs else c # replaceAll p r cs)"

text \<open>An integer in a template literal: its decimal digits, with a minus sign if negative.\<close>

definition digitChar :: "nat \<Rightarrow> jschar" where
  "digitChar d = of_nat (48 + d)"

fun showNat :: "nat \<Rightarrow> jsstring" where
  "showNat n = (if n < 10 then [digitChar n] else showNat (n div 10) @ [digitChar (n mod 10)])"

declare showNat.simps [simp del]

definition showInt :: "int \<Rightarrow> jsstring" where
  "showInt i = (if i < 0 then MINUS # showNat (nat (- i)) else showNat (nat i))"

text \<open>
  The error \<open>execSync\<close> throws when the child process fails: \<open>status\<close> is the exit code,
  or \<open>null\<close> when the process was killed (as on a timeout); with \<open>encoding: 'utf8'\<close>
  \<open>stdout\<close> and \<open>stderr\<close> are strings.
\<close>

record execFailure =
  status :: "int option"
  stdout :: jsstring
  stderr :: jsstring
  message :: jsstring

text \<open>
  \<open>execSync\<close> is the outside world: given the number of commands run so far, the command
  and the timeout, it either returns the child's standard output or throws.
\<close>

type_synonym shell = "nat \<Rightarrow> jsstring \<Rightarrow> nat \<Rightarrow> execFailure + jsstring"

text \<open>
  The state a call can change: the server's flag \<open>this.permissionsChecked\<close>, the lines
  written with \<open>console.error\<close>, and the commands handed to \<open>execSync\<close> with their
  timeouts.
\<close>

record state =
  permissionsChecked :: bool
  console :: "jsstring list"
  calls :: "(jsstring \<times> nat) list"

text \<open>\<open>new Error(message)\<close>\<close>

datatype exn = Error jsstring

text \<open>\<open>${error.status}\<close>\<close>

definition showStatus :: "int option \<Rightarrow> jsstring" where
  "showStatus st = (case st of None \<Rightarrow> js ''null'' | Some n \<Rightarrow> showInt n)"

text \<open>
  The timeout, the command line and the method itself. \<open>calls\<close> gets the command
  whether or not it succeeds.
\<close>

definition timeoutFor :: "jsstring \<Rightarrow> nat" where
  "timeoutFor script = (if jsIncludes script (js ''repeat with aPerson in people'') then 120000 else 30000)"

definition shellCommand :: "jsstring \<Rightarrow> jsstring" where
  "shellCommand script =
     js ''osascript -e '' @ QUOTE # replaceAll QUOTE [QUOTE, BACKSLASH, QUOTE, QUOTE] script
       @ QUOTE # js '' 2>/dev/null''"

definition executeAppleScript :: "shell \<Rightarrow> jsstring \<Rightarrow> state \<Rightarrow> (exn + jsstring) \<times> state" where
  "executeAppleScript execSync script s =
     (let timeout = timeoutFor script;
          command = shellCommand script;
          s1 = s\<lparr>calls := calls s @ [(command, timeout)]\<rparr>
      in case execSync (length (calls s)) command timeout of
           Inr result \<Rightarrow> (Inr (trim result), s1)
         | Inl error \<Rightarrow>
             (let errorDetails =
                    (if truthy (stdout error) then stdout error
                     else if truthy (stderr error) then stderr error
                     else message error);
                  s2 = s1\<lparr>console := console s1 @
                         [js ''AppleScript execution failed (exit code: '' @ showStatus (status error)
                            @ js ''): '' @ errorDetails,
                          js ''Script was: '' @ take 200 script @ js ''...'']\<rparr>
              in (Inl (Error (js ''Failed to execute AppleScript (exit code: ''
                                @ showStatus (status error) @ js '')'')), s2)))"

text \<open>
  What \<open>/bin/sh\<close> makes of one word of a command line, for the part of the POSIX quoting
  rules the command relies on: a single quote opens a literal stretch that runs to the
  next single quote, a backslash outside quotes keeps the next character, a blank ends
  the word. The result is the word and the rest of the line; \<open>None\<close> stands for syntax
  this fragment does not cover (an unterminated quote, other shell operators outside
  quotes).
\<close>

definition shSpecial :: "jschar \<Rightarrow> bool" where
  \<open>shSpecial c \<longleftrightarrow> c \<in> set (js ''|&;<>()$`"*?[#~=%!{}'')\<close>

fun shUnquoted :: "jsstring \<Rightarrow> jsstring \<Rightarrow> (jsstring \<times> jsstring) option"
  and shQuoted :: "jsstring \<Rightarrow> jsstring \<Rightarrow> (jsstring \<times> jsstring) option" where
  "shUnquoted word [] = Some (word, [])"
| "shUnquoted word (c # cs) =
     (if c = QUOTE then shQuoted word cs
      else if c = BACKSLASH then
        (case cs of [] \<Rightarrow> None
         | d # ds \<Rightarrow> if d = NL then None else shUnquoted (word @ [d]) ds)
      else if c = SPACE \<or> c = TAB \<or> c = NL then Some (word, c # cs)
      else if shSpecial c then None
      else shUnquoted (word @ [c]) cs)"
| "shQuoted word [] = None"
| "shQuoted word (c # cs) =
     (if c = QUOTE then shUnquoted word cs else shQuoted (word @ [c]) cs)"

text \<open>The state the constructor leaves: \<open>this.permissionsChecked = false\<close>.\<close>

definition initialState :: state where
  "initialState = \<lparr>permissionsChecked = False, console = [], calls = []\<rparr>"

section \<open>The server's methods\<close>

text \<open>Two more code units the handlers look for.\<close>

definition DQUOTE :: jschar where "DQUOTE = 0x22"
definition COMMA :: jschar where "COMMA = 0x2C"

text \<open>
  A method of the server is a function from the state to an outcome and the new state:
  \<open>Inl\<close> is a thrown error, \<open>Inr\<close> a returned value. \<open>andThen\<close> sequences two steps
  (an error ends the sequence), \<open>tryCatch\<close> is \<open>try { ... } catch (error) { ... }\<close>.
  \<open>executeAppleScript\<close> above is such a method.
\<close>

type_synonym 'a action = "state \<Rightarrow> (exn + 'a) \<times> state"

definition return' :: "'a \<Rightarrow> 'a action" where
  "return' v s = (Inr v, s)"

definition throw :: "exn \<Rightarrow> 'a action" where
  "throw e s = (Inl e, s)"

definition andThen :: "'a action \<Rightarrow> ('a \<Rightarrow> 'b action) \<Rightarrow> 'b action" where
  "andThen m f s = (case m s of (Inl e, s1) \<Rightarrow> (Inl e, s1) | (Inr v, s1) \<Rightarrow> f v s1)"

definition tryCatch :: "'a action \<Rightarrow> (exn \<Rightarrow> 'a action) \<Rightarrow> 'a action" where
  "tryCatch m h s = (case m s of (Inl e, s1) \<Rightarrow> h e s1 | (Inr v, s1) \<Rightarrow> (Inr v, s1))"

text \<open>\<open>console.error(line)\<close>, and reading and writing \<open>this.permissionsChecked\<close>.\<close>

definition consoleError :: "jsstring \<Rightarrow> unit action" where
  "consoleError line s = (Inr (), s\<lparr>console := console s @ [line]\<rparr>)"

definition getPermissionsChecked :: "bool action" where
  "getPermissionsChecked s = (Inr (permissionsChecked s), s)"

definition setPermissionsChecked :: "bool \<Rightarrow> unit action" where
  "setPermissionsChecked b s = (Inr (), s\<lparr>permissionsChecked := b\<rparr>)"

text \<open>\<open>error.message\<close>\<close>

fun errorMessage :: "exn \<Rightarrow> jsstring" where
  "errorMessage (Error m) = m"

text \<open>
  \<open>s.split(/[...]+/)\<close> for a class \<open>p\<close> of code units: the pieces between the maximal
  runs of separators. A run at the start or at the end leaves an empty piece there, and
  the empty string gives one empty piece.
\<close>

function jsSplitRuns :: "(jschar \<Rightarrow> bool) \<Rightarrow> jsstring \<Rightarrow> jsstring list" where
  "jsSplitRuns p [] = [[]]"
| "jsSplitRuns p (c # cs) =
     (if p c then [] # jsSplitRuns p (dropWhile p cs)
      else (let r = jsSplitRuns p cs in (c # hd r) # tl r))"
  by pat_completeness auto
termination
  by (relation "measure (\<lambda>(p, s). length s)") (auto simp: length_dropWhile_le less_Suc_eq_le)

definition isCRLF :: "jschar \<Rightarrow> bool" where
  "isCRLF c \<longleftrightarrow> c = CR \<or> c = NL"

text \<open>\<open>names.map((name, index) => `${index + 1}. ${name}`)\<close>, from position \<open>index\<close> on.\<close>

fun numbered :: "nat \<Rightarrow> jsstring list \<Rightarrow> jsstring list" where
  "numbered index [] = []"
| "numbered index (nm # names) =
     (showNat (index + 1) @ js ''. '' @ nm) # numbered (index + 1) names"

section \<open>PermissionProbe: checkPermissions\<close>

text \<open>
  The scripts are the template literals of the source, line by line, with their leading
  line break and indentation.
\<close>

definition testScript :: jsstring where
  \<open>testScript =
    [NL]
    @ js ''      tell application "System Events"'' @ [NL]
    @ js ''        return "System Events accessible"'' @ [NL]
    @ js ''      end tell'' @ [NL]
    @ js ''    ''\<close>

definition contactsTestScript :: jsstring where
  \<open>contactsTestScript =
    [NL]
    @ js ''      tell application "Contacts"'' @ [NL]
    @ js ''        return "Contacts accessible"'' @ [NL]
    @ js ''      end tell'' @ [NL]
    @ js ''    ''\<close>

definition checkPermissions :: "shell \<Rightarrow> unit action" where
  "checkPermissions execSync =
     andThen
       (tryCatch
          (andThen (executeAppleScript execSync testScript) (\<lambda>_. return' ()))
          (\<lambda>error.
             andThen (consoleError (js ''System Events permission check failed: '' @ errorMessage error))
               (\<lambda>_. throw (Error (js ''System Events not accessible'')))))
       (\<lambda>_.
          tryCatch
            (andThen (executeAppleScript execSync contactsTestScript) (\<lambda>_. return' ()))
            (\<lambda>error.
               andThen (consoleError (js ''Contacts permission check failed: '' @ errorMessage error))
                 (\<lambda>_. throw (Error (js ''Contacts app not accessible - permission not granted'')))))"

text \<open>
  The handlers return \<open>{ content: [{ type: 'text', text }] }\<close>; the model returns the
  text. Characters outside ASCII are written as their UTF-16 code units.
\<close>

definition countScriptReport :: jsstring where
  \<open>countScriptReport =
    [NL]
    @ js ''        tell application "Contacts"'' @ [NL]
    @ js ''          return count of people'' @ [NL]
    @ js ''        end tell'' @ [NL]
    @ js ''      ''\<close>

definition checkPermissionsAndReport :: "shell \<Rightarrow> jsstring action" where
  \<open>checkPermissionsAndReport execSync =
     tryCatch
       (andThen (checkPermissions execSync)
          (\<lambda>_. andThen (executeAppleScript execSync countScriptReport)
             (\<lambda>count. return'
                ([0x2705] @ js '' Permissions check passed!'' @ [NL]
                @ [NL]
                @ js ''System Events: Accessible'' @ [NL]
                @ js ''Contacts app: Accessible'' @ [NL]
                @ js ''Contact count: '' @ count @ [NL]
                @ [NL]
                @ js ''The MCP server should be able to access your contacts. If you'' @ [QUOTE]
                @ js ''re still experiencing issues, try restarting the Claude Desktop app.''))))
       (\<lambda>error. return'
          ([0x274C] @ js '' Permissions check failed: '' @ errorMessage error @ [NL]
          @ [NL]
          @ [0xD83D, 0xDD27] @ js '' Troubleshooting steps:'' @ [NL]
          @ [NL]
          @ js ''1. Open System Preferences/Settings '' @ [0x2192] @ js '' Security & Privacy ''
          @ [0x2192] @ js '' Privacy'' @ [NL]
          @ js ''2. Look for "Contacts" in the left sidebar'' @ [NL]
          @ js ''3. Make sure the Terminal app (or Claude Desktop) is listed and checked'' @ [NL]
          @ js ''4. If not listed, try running the MCP server from Terminal first to trigger the permission prompt''
          @ [NL]
          @ js ''5. You may also need to grant "Automation" permissions'' @ [NL]
          @ js ''6. Restart Claude Desktop after granting permissions'' @ [NL]
          @ [NL]
          @ js ''Note: On newer macOS versions, you might need to grant permissions to both the Terminal app and Claude Desktop separately.''))\<close>

section \<open>Diagnostic tools\<close>

text \<open>
  \<open>parseIntText\<close> stands for \<open>s => `${parseInt(s)}`\<close>: \<open>parseInt\<close> returns a
  floating-point number, which the model does not have, so the function is a parameter.
\<close>

definition countScript :: jsstring where
  \<open>countScript =
    [NL]
    @ js ''      tell application "Contacts"'' @ [NL]
    @ js ''        return count of people'' @ [NL]
    @ js ''      end tell'' @ [NL]
    @ js ''    ''\<close>

definition getContactCount :: "shell \<Rightarrow> (jsstring \<Rightarrow> jsstring) \<Rightarrow> jsstring action" where
  \<open>getContactCount execSync parseIntText =
     andThen (consoleError (js ''Getting contact count...''))
       (\<lambda>_. tryCatch
          (andThen (executeAppleScript execSync countScript)
             (\<lambda>result.
                let count = parseIntText (trim result) in
                andThen (consoleError (js ''Contact count retrieved: '' @ count))
                  (\<lambda>_. return'
                     ([0xD83D, 0xDCCA] @ js '' Total contacts in address book: '' @ count @ [NL]
                     @ [NL]
                     @ js ''This confirms basic Contacts app connectivity is working.''))))
          (\<lambda>error.
             andThen (consoleError (js ''Contact count failed: '' @ errorMessage error))
               (\<lambda>_. return'
                  ([0x274C] @ js '' Failed to get contact count: '' @ errorMessage error @ [NL]
                  @ [NL]
                  @ js ''This suggests a fundamental issue with Contacts app access.''))))\<close>

text \<open>
  \<open>args.limit\<close> is \<open>None\<close> when the caller gives no limit; \<open>args.limit || 5\<close> also
  replaces 0.
\<close>

definition namesScript :: jsstring where
  \<open>namesScript =
    [NL]
    @ js ''      tell application "Contacts"'' @ [NL]
    @ js ''        return (name of person 1) & return & (name of person 2) & return & (name of person 3)''
    @ [NL]
    @ js ''      end tell'' @ [NL]
    @ js ''    ''\<close>

definition getContactNames :: "shell \<Rightarrow> nat option \<Rightarrow> jsstring action" where
  \<open>getContactNames execSync argsLimit =
     (let limit = (case argsLimit of None \<Rightarrow> 5 | Some n \<Rightarrow> if n = 0 then 5 else n) in
      andThen (consoleError (js ''Getting names of first '' @ showNat limit @ js '' contacts...''))
        (\<lambda>_. tryCatch
           (andThen (executeAppleScript execSync namesScript)
              (\<lambda>result.
                 let names = filter (\<lambda>nm. truthy (trim nm)) (jsSplitRuns isCRLF result) in
                 andThen (consoleError (js ''Retrieved '' @ showNat (length names) @ js '' contact names''))
                   (\<lambda>_.
                      let namesList = jsJoin NL (numbered 0 names) in
                      return'
                        ([0xD83D, 0xDCDD] @ js '' First '' @ showNat (length names) @ js '' contact names:'' @ [NL]
                        @ [NL]
                        @ namesList @ [NL]
                        @ [NL]
                        @ js ''This tests basic contact field access without complex data extraction.''))))
           (\<lambda>error.
              andThen (consoleError (js ''Get contact names failed: '' @ errorMessage error))
                (\<lambda>_. return'
                   ([0x274C] @ js '' Failed to get contact names: '' @ errorMessage error @ [NL]
                   @ [NL]
                   @ js ''This suggests issues with accessing contact fields.'')))))\<close>

definition processingScript :: "nat \<Rightarrow> jsstring" where
  \<open>processingScript sampleSize =
    [NL]
    @ js ''      tell application "Contacts"'' @ [NL]
    @ js ''        set testResults to {}'' @ [NL]
    @ js ''        set processedCount to 0'' @ [NL]
    @ js ''        set maxSample to '' @ showNat sampleSize @ [NL]
    @ [NL]
    @ js ''        repeat with aPerson in people'' @ [NL]
    @ js ''          if processedCount >= maxSample then exit repeat'' @ [NL]
    @ [NL]
    @ js ''          try'' @ [NL]
    @ js ''            set startTime to current date'' @ [NL]
    @ [NL]
    @ js ''            -- Test basic field access'' @ [NL]
    @ js ''            set personName to ""'' @ [NL]
    @ js ''            try'' @ [NL]
    @ js ''              set personName to name of aPerson'' @ [NL]
    @ js ''            end try'' @ [NL]
    @ [NL]
    @ js ''            -- Test email access (often problematic)'' @ [NL]
    @ js ''            set emailCount to 0'' @ [NL]
    @ js ''            try'' @ [NL]
    @ js ''              set emailCount to count of emails of aPerson'' @ [NL]
    @ js ''            end try'' @ [NL]
    @ [NL]
    @ js ''            -- Test phone access'' @ [NL]
    @ js ''            set phoneCount to 0'' @ [NL]
    @ js ''            try'' @ [NL]
    @ js ''              set phoneCount to count of phones of aPerson'' @ [NL]
    @ js ''            end try'' @ [NL]
    @ [NL]
    @ js ''            -- Test organization access'' @ [NL]
    @ js ''            set orgName to ""'' @ [NL]
    @ js ''            try'' @ [NL]
    @ js ''              set orgName to organization of aPerson'' @ [NL]
    @ js ''            end try'' @ [NL]
    @ [NL]
    @ js ''            set endTime to current date'' @ [NL]
    @ js ''            set processingTime to endTime - startTime'' @ [NL]
    @ [NL]
    @ js ''            set testResult to "Contact " & (processedCount + 1) & ": " & personName & " (emails:" & emailCount & ", phones:" & phoneCount & ", time:" & processingTime & "s)"''
    @ [NL]
    @ js ''            set end of testResults to testResult'' @ [NL]
    @ js ''            set processedCount to processedCount + 1'' @ [NL]
    @ [NL]
    @ js ''          on error errMsg'' @ [NL]
    @ js ''            set errorResult to "Contact " & (processedCount + 1) & ": ERROR - " & errMsg''
    @ [NL]
    @ js ''            set end of testResults to errorResult'' @ [NL]
    @ js ''            set processedCount to processedCount + 1'' @ [NL]
    @ js ''          end try'' @ [NL]
    @ js ''        end repeat'' @ [NL]
    @ [NL]
    @ js ''        set AppleScript'' @ [QUOTE] @ js ''s text item delimiters to return'' @ [NL]
    @ js ''        set result to testResults as text'' @ [NL]
    @ js ''        set AppleScript'' @ [QUOTE] @ js ''s text item delimiters to ""'' @ [NL]
    @ js ''        return result'' @ [NL]
    @ js ''      end tell'' @ [NL]
    @ js ''    ''\<close>

definition testContactProcessing :: "shell \<Rightarrow> nat option \<Rightarrow> jsstring action" where
  \<open>testContactProcessing execSync argsSampleSize =
     andThen (checkPermissions execSync)
       (\<lambda>_.
          let sampleSize = (case argsSampleSize of None \<Rightarrow> 5 | Some n \<Rightarrow> if n = 0 then 5 else n) in
          andThen (consoleError (js ''Testing contact processing with '' @ showNat sampleSize @ js '' contacts...''))
            (\<lambda>_. tryCatch
               (andThen (executeAppleScript execSync (processingScript sampleSize))
                  (\<lambda>result. return'
                     (js ''Contact Processing Test Results:'' @ [NL]
                     @ [NL]
                     @ result @ [NL]
                     @ [NL]
                     @ js ''This helps identify if specific contacts are causing performance issues.'')))
               (\<lambda>error.
                  andThen (consoleError (js ''Contact processing test failed: '' @ errorMessage error))
                    (\<lambda>_. return'
                       (js ''Contact processing test failed: '' @ errorMessage error @ [NL]
                       @ [NL]
                       @ js ''This suggests there may be fundamental AppleScript execution issues in the Claude Desktop environment.'')))))\<close>

section \<open>Fetching the contacts\<close>

text \<open>
  \<open>getContactsData\<close> and \<open>getContactsDataUnlimited\<close>. The \<open>try\<close> around
  \<open>parseContactsFromDelimitedData\<close> has no \<open>catch\<close> branch here: the parser does not
  throw on a string.
\<close>

definition contactsScript :: jsstring where
  \<open>contactsScript =
    [NL]
    @ js ''      tell application "Contacts"'' @ [NL]
    @ js ''        set contactList to {}'' @ [NL]
    @ js ''        set contactCount to 0'' @ [NL]
    @ js ''        set maxContacts to 50'' @ [NL]
    @ js ''        repeat with aPerson in people'' @ [NL]
    @ js ''          if contactCount >= maxContacts then exit repeat'' @ [NL]
    @ js ''          try'' @ [NL]
    @ js ''            -- Get basic info with safe defaults'' @ [NL]
    @ js ''            set personName to ""'' @ [NL]
    @ js ''            try'' @ [NL]
    @ js ''              set personName to name of aPerson'' @ [NL]
    @ js ''            end try'' @ [NL]
    @ [NL]
    @ js ''            set firstName to ""'' @ [NL]
    @ js ''            try'' @ [NL]
    @ js ''              set firstName to first name of aPerson'' @ [NL]
    @ js ''            end try'' @ [NL]
    @ [NL]
    @ js ''            set lastName to ""'' @ [NL]
    @ js ''            try'' @ [NL]
    @ js ''              set lastName to last name of aPerson'' @ [NL]
    @ js ''            end try'' @ [NL]
    @ [NL]
    @ js ''            set org to ""'' @ [NL]
    @ js ''            try'' @ [NL]
    @ js ''              set org to organization of aPerson'' @ [NL]
    @ js ''            end try'' @ [NL]
    @ [NL]
    @ js ''            set noteText to ""'' @ [NL]
    @ js ''            try'' @ [NL]
    @ js ''              set noteText to note of aPerson'' @ [NL]
    @ js ''            end try'' @ [NL]
    @ [NL]
    @ js ''            set birthdayText to ""'' @ [NL]
    @ js ''            try'' @ [NL]
    @ js ''              set birthdayValue to birth date of aPerson'' @ [NL]
    @ js ''              if birthdayValue is not missing value then'' @ [NL]
    @ js ''                set birthdayText to birthdayValue as string'' @ [NL]
    @ js ''              end if'' @ [NL]
    @ js ''            end try'' @ [NL]
    @ [NL]
    @ js ''            -- Get emails (concatenated with semicolons)'' @ [NL]
    @ js ''            set emailText to ""'' @ [NL]
    @ js ''            try'' @ [NL]
    @ js ''              set emailList to {}'' @ [NL]
    @ js ''              repeat with anEmail in emails of aPerson'' @ [NL]
    @ js ''                set end of emailList to (value of anEmail)'' @ [NL]
    @ js ''              end repeat'' @ [NL]
    @ js ''              set AppleScript'' @ [QUOTE] @ js ''s text item delimiters to ";"''
    @ [NL]
    @ js ''              set emailText to emailList as text'' @ [NL]
    @ js ''              set AppleScript'' @ [QUOTE] @ js ''s text item delimiters to ""''
    @ [NL]
    @ js ''            end try'' @ [NL]
    @ [NL]
    @ js ''            -- Get phones (concatenated with semicolons)'' @ [NL]
    @ js ''            set phoneText to ""'' @ [NL]
    @ js ''            try'' @ [NL]
    @ js ''              set phoneList to {}'' @ [NL]
    @ js ''              repeat with aPhone in phones of aPerson'' @ [NL]
    @ js ''                set end of phoneList to (value of aPhone)'' @ [NL]
    @ js ''              end repeat'' @ [NL]
    @ js ''              set AppleScript'' @ [QUOTE] @ js ''s text item delimiters to ";"''
    @ [NL]
    @ js ''              set phoneText to phoneList as text'' @ [NL]
    @ js ''              set AppleScript'' @ [QUOTE] @ js ''s text item delimiters to ""''
    @ [NL]
    @ js ''            end try'' @ [NL]
    @ [NL]
    @ js ''            -- Create tab-delimited record'' @ [NL]
    @ js ''            set contactRecord to personName & tab & firstName & tab & lastName & tab & org & tab & noteText & tab & birthdayText & tab & emailText & tab & phoneText''
    @ [NL]
    @ js ''            set end of contactList to contactRecord'' @ [NL]
    @ js ''            set contactCount to contactCount + 1'' @ [NL]
    @ js ''          end try'' @ [NL]
    @ js ''        end repeat'' @ [NL]
    @ [NL]
    @ js ''        -- Return newline-delimited list'' @ [NL]
    @ js ''        set AppleScript'' @ [QUOTE] @ js ''s text item delimiters to return'' @ [NL]
    @ js ''        set result to contactList as text'' @ [NL]
    @ js ''        set AppleScript'' @ [QUOTE] @ js ''s text item delimiters to ""'' @ [NL]
    @ js ''        return result'' @ [NL]
    @ js ''      end tell'' @ [NL]
    @ js ''    ''\<close>

definition getContactsData :: "shell \<Rightarrow> contact list action" where
  \<open>getContactsData execSync =
     andThen getPermissionsChecked
       (\<lambda>checked.
          andThen
            (if \<not> checked then
               tryCatch
                 (andThen (checkPermissions execSync)
                    (\<lambda>_. andThen (setPermissionsChecked True)
                       (\<lambda>_. consoleError (js ''Initial permissions check passed''))))
                 (\<lambda>error.
                    andThen (consoleError (js ''Permission check failed: '' @ errorMessage error))
                      (\<lambda>_. throw error))
             else return' ())
            (\<lambda>_.
               andThen (executeAppleScript execSync contactsScript)
                 (\<lambda>result.
                    if \<not> truthy result then
                      andThen (consoleError (js ''No result returned from AppleScript''))
                        (\<lambda>_. return' [])
                    else
                      (let contacts = parseContactsFromDelimitedData result in
                       andThen (consoleError (js ''Successfully parsed '' @ showNat (length contacts) @ js '' contacts from AppleScript''))
                         (\<lambda>_. return' contacts)))))\<close>

definition contactsScriptUnlimited :: jsstring where
  \<open>contactsScriptUnlimited =
    [NL]
    @ js ''      tell application "Contacts"'' @ [NL]
    @ js ''        set contactList to {}'' @ [NL]
    @ js ''        repeat with aPerson in people'' @ [NL]
    @ js ''          try'' @ [NL]
    @ js ''            -- Get basic info with safe defaults'' @ [NL]
    @ js ''            set personName to ""'' @ [NL]
    @ js ''            try'' @ [NL]
    @ js ''              set personName to name of aPerson'' @ [NL]
    @ js ''            end try'' @ [NL]
    @ [NL]
    @ js ''            set firstName to ""'' @ [NL]
    @ js ''            try'' @ [NL]
    @ js ''              set firstName to first name of aPerson'' @ [NL]
    @ js ''            end try'' @ [NL]
    @ [NL]
    @ js ''            set lastName to ""'' @ [NL]
    @ js ''            try'' @ [NL]
    @ js ''              set lastName to last name of aPerson'' @ [NL]
    @ js ''            end try'' @ [NL]
    @ [NL]
    @ js ''            set org to ""'' @ [NL]
    @ js ''            try'' @ [NL]
    @ js ''              set org to organization of aPerson'' @ [NL]
    @ js ''            end try'' @ [NL]
    @ [NL]
    @ js ''            set noteText to ""'' @ [NL]
    @ js ''            try'' @ [NL]
    @ js ''              set noteText to note of aPerson'' @ [NL]
    @ js ''            end try'' @ [NL]
    @ [NL]
    @ js ''            set birthdayText to ""'' @ [NL]
    @ js ''            try'' @ [NL]
    @ js ''              set birthdayValue to birth date of aPerson'' @ [NL]
    @ js ''              if birthdayValue is not missing value then'' @ [NL]
    @ js ''                set birthdayText to birthdayValue as string'' @ [NL]
    @ js ''              end if'' @ [NL]
    @ js ''            end try'' @ [NL]
    @ [NL]
    @ js ''            -- Get emails (concatenated with semicolons)'' @ [NL]
    @ js ''            set emailText to ""'' @ [NL]
    @ js ''            try'' @ [NL]
    @ js ''              set emailList to {}'' @ [NL]
    @ js ''              repeat with anEmail in emails of aPerson'' @ [NL]
    @ js ''                set end of emailList to (value of anEmail)'' @ [NL]
    @ js ''              end repeat'' @ [NL]
    @ js ''              set AppleScript'' @ [QUOTE] @ js ''s text item delimiters to ";"''
    @ [NL]
    @ js ''              set emailText to emailList as text'' @ [NL]
    @ js ''              set AppleScript'' @ [QUOTE] @ js ''s text item delimiters to ""''
    @ [NL]
    @ js ''            end try'' @ [NL]
    @ [NL]
    @ js ''            -- Get phones (concatenated with semicolons)'' @ [NL]
    @ js ''            set phoneText to ""'' @ [NL]
    @ js ''            try'' @ [NL]
    @ js ''              set phoneList to {}'' @ [NL]
    @ js ''              repeat with aPhone in phones of aPerson'' @ [NL]
    @ js ''                set end of phoneList to (value of aPhone)'' @ [NL]
    @ js ''              end repeat'' @ [NL]
    @ js ''              set AppleScript'' @ [QUOTE] @ js ''s text item delimiters to ";"''
    @ [NL]
    @ js ''              set phoneText to phoneList as text'' @ [NL]
    @ js ''              set AppleScript'' @ [QUOTE] @ js ''s text item delimiters to ""''
    @ [NL]
    @ js ''            end try'' @ [NL]
    @ [NL]
    @ js ''            -- Create tab-delimited record'' @ [NL]
    @ js ''            set contactRecord to personName & tab & firstName & tab & lastName & tab & org & tab & noteText & tab & birthdayText & tab & emailText & tab & phoneText''
    @ [NL]
    @ js ''            set end of contactList to contactRecord'' @ [NL]
    @ js ''          end try'' @ [NL]
    @ js ''        end repeat'' @ [NL]
    @ [NL]
    @ js ''        -- Return newline-delimited list'' @ [NL]
    @ js ''        set AppleScript'' @ [QUOTE] @ js ''s text item delimiters to return'' @ [NL]
    @ js ''        set result to contactList as text'' @ [NL]
    @ js ''        set AppleScript'' @ [QUOTE] @ js ''s text item delimiters to ""'' @ [NL]
    @ js ''        return result'' @ [NL]
    @ js ''      end tell'' @ [NL]
    @ js ''    ''\<close>

definition getContactsDataUnlimited :: "shell \<Rightarrow> contact list action" where
  \<open>getContactsDataUnlimited execSync =
     andThen getPermissionsChecked
       (\<lambda>checked.
          andThen
            (if \<not> checked then
               tryCatch
                 (andThen (checkPermissions execSync)
                    (\<lambda>_. andThen (setPermissionsChecked True)
                       (\<lambda>_. consoleError (js ''Initial permissions check passed''))))
                 (\<lambda>error.
                    andThen (consoleError (js ''Permission check failed: '' @ errorMessage error))
                      (\<lambda>_. throw error))
             else return' ())
            (\<lambda>_.
               andThen (executeAppleScript execSync contactsScriptUnlimited)
                 (\<lambda>result.
                    if \<not> truthy result then
                      andThen (consoleError (js ''No result returned from AppleScript''))
                        (\<lambda>_. return' [])
                    else
                      (let contacts = parseContactsFromDelimitedData result in
                       andThen (consoleError (js ''Successfully parsed '' @ showNat (length contacts)
                                 @ js '' contacts from AppleScript (unlimited)''))
                         (\<lambda>_. return' contacts)))))\<close>

text \<open>
  \<open>formatContact\<close>: \<open>None\<close> is \<open>null\<close>. \<open>JSON.stringify(results, null, 2)\<close> is a
  parameter of \<open>getAllContacts\<close>.
\<close>

record formatted =
  outName :: jsstring
  outFirstName :: jsstring
  outLastName :: jsstring
  outEmails :: "jsstring list"
  outPhones :: "jsstring list"
  outOrganization :: "jsstring option"
  outNotes :: "jsstring option"
  outBirthday :: "jsstring option"

definition orNull :: "jsstring \<Rightarrow> jsstring option" where
  "orNull s = (if truthy s then Some s else None)"

definition formatContact :: "contact \<Rightarrow> formatted" where
  "formatContact c =
     \<lparr> outName = (if truthy (name c) then name c else js ''Unknown''),
       outFirstName = orEmpty (firstName c),
       outLastName = orEmpty (lastName c),
       outEmails = emails c,
       outPhones = phones c,
       outOrganization = orNull (organization c),
       outNotes = orNull (note' c),
       outBirthday = orNull (birthday c) \<rparr>"

definition getAllContacts ::
  "shell \<Rightarrow> (formatted list \<Rightarrow> jsstring) \<Rightarrow> nat option \<Rightarrow> bool \<Rightarrow> jsstring action" where
  "getAllContacts execSync jsonStringify argsLimit unlimited =
     andThen (if unlimited then getContactsDataUnlimited execSync else getContactsData execSync)
       (\<lambda>contactsList.
          let limit = (case argsLimit of None \<Rightarrow> 100 | Some n \<Rightarrow> if n = 0 then 100 else n);
              limited = take limit contactsList;
              results = map formatContact limited
          in return'
               (js ''Retrieved '' @ showNat (length results) @ js '' contacts''
                @ (if length contactsList > limit
                   then js '' (limited from '' @ showNat (length contactsList) @ js '' total)''
                   else [])
                @ js '':'' @ [NL] @ [NL] @ jsonStringify results))"

section \<open>Searching by name\<close>

text \<open>
  \<open>searchContacts\<close> has two branches, one without a query and one with; each is a
  function of its own here. \<open>query\<close> is \<open>None\<close> when the caller gives none.
\<close>

definition searchAllContacts :: "shell \<Rightarrow> jsstring action" where
  \<open>searchAllContacts execSync =
     (let searchScript = js ''tell application "Contacts" to return name of people'' in
      tryCatch
        (andThen (executeAppleScript execSync searchScript)
           (\<lambda>result.
              let names =
                    (if COMMA \<in> set result
                     then take 50 (filter truthy (map trim (jsSplit COMMA result)))
                     else take 50 (filter (\<lambda>nm. truthy (trim nm)) (jsSplitRuns isCRLF result)))
              in andThen (consoleError (js ''Found '' @ showNat (length names) @ js '' contacts''))
                   (\<lambda>_.
                      let namesList = jsJoin NL (numbered 0 names) in
                      return'
                        (js ''First '' @ showNat (length names) @ js '' contacts:'' @ [NL]
                        @ [NL]
                        @ namesList @ [NL]
                        @ [NL]
                        @ js ''(Searched entire address book using efficient AppleScript filtering)''))))
        (\<lambda>error.
           andThen (consoleError (js ''Contact search failed: '' @ errorMessage error))
             (\<lambda>_. throw error)))\<close>

definition searchContactsMatching :: "shell \<Rightarrow> jsstring \<Rightarrow> jsstring action" where
  \<open>searchContactsMatching execSync query =
     (let searchQuery = replaceAll DQUOTE [BACKSLASH, DQUOTE] query;
          searchScript =
            js ''tell application "Contacts" to return name of (every person whose name contains "''
            @ searchQuery @ js ''")''
      in tryCatch
           (andThen (executeAppleScript execSync searchScript)
              (\<lambda>result.
                 let names =
                       (if COMMA \<in> set result
                        then filter truthy (map trim (jsSplit COMMA result))
                        else filter (\<lambda>nm. truthy (trim nm)) (jsSplitRuns isCRLF result))
                 in andThen (consoleError (js ''Found '' @ showNat (length names) @ js '' matching contacts''))
                      (\<lambda>_.
                         if length names = 0 then
                           return' (js ''No contacts found matching "'' @ query @ js ''".'')
                         else
                           (let namesList = jsJoin NL (numbered 0 names) in
                            return'
                              (js ''Found '' @ showNat (length names) @ js '' contacts matching "'' @ query @ js ''":''
                              @ [NL]
                              @ [NL]
                              @ namesList @ [NL]
                              @ [NL]
                              @ js ''(Searched entire address book using efficient AppleScript filtering)'')))))
           (\<lambda>error.
              andThen (consoleError (js ''Contact search failed: '' @ errorMessage error))
                (\<lambda>_. throw error)))\<close>

definition searchContacts :: "shell \<Rightarrow> jsstring option \<Rightarrow> jsstring action" where
  \<open>searchContacts execSync argsQuery =
     andThen (checkPermissions execSync)
       (\<lambda>_.
          andThen (consoleError (js ''Searching contacts with query: "''
                     @ (case argsQuery of None \<Rightarrow> js ''all''
                        | Some q \<Rightarrow> if truthy q then q else js ''all'') @ js ''"''))
            (\<lambda>_.
               case argsQuery of
                 None \<Rightarrow> searchAllContacts execSync
               | Some query \<Rightarrow>
                   if \<not> truthy query then searchAllContacts execSync
                   else searchContactsMatching execSync query))\<close>

definition getContactByName :: "shell \<Rightarrow> jsstring \<Rightarrow> bool \<Rightarrow> jsstring action" where
  \<open>getContactByName execSync argsName exact_match =
     andThen (checkPermissions execSync)
       (\<lambda>_.
          andThen (consoleError (js ''Searching for contacts with name: "'' @ argsName @ js ''"''))
            (\<lambda>_.
               let searchName = replaceAll DQUOTE [BACKSLASH, DQUOTE] argsName;
                   searchScript =
                     (if exact_match
                      then js ''tell application "Contacts" to return name of (every person whose name = "''
                           @ searchName @ js ''")''
                      else js ''tell application "Contacts" to return name of (every person whose name contains "''
                           @ searchName @ js ''")'')
               in tryCatch
                    (andThen (executeAppleScript execSync searchScript)
                       (\<lambda>result.
                          let names = filter (\<lambda>nm. truthy (trim nm)) (jsSplitRuns isCRLF result)
                          in andThen (consoleError (js ''Found '' @ showNat (length names) @ js '' matching contacts''))
                               (\<lambda>_.
                                  if length names = 0 then
                                    return' (js ''No contacts found with name "'' @ argsName @ js ''".'')
                                  else
                                    (let namesList = jsJoin NL (numbered 0 names) in
                                     return'
                                       (js ''Found '' @ showNat (length names) @ js '' contacts with name "'' @ argsName @ js ''":''
                                       @ [NL]
                                       @ [NL]
                                       @ namesList @ [NL]
                                       @ [NL]
                                       @ js ''(Searched entire address book using efficient AppleScript filtering)'')))))
                    (\<lambda>error.
                       andThen (consoleError (js ''Name search failed: '' @ errorMessage error))
                         (\<lambda>_. throw error))))\<close>

section \<open>The tool dispatcher\<close>

text \<open>
  A \<open>tools/call\<close> request with the arguments the handlers read. The handler of
  \<open>CallToolRequestSchema\<close> turns every error a tool throws into a reply.
\<close>

datatype request =
    search_contacts "jsstring option"
  | get_contact_by_name jsstring bool
  | get_all_contacts "nat option" bool
  | check_permissions
  | test_contact_processing "nat option"
  | get_contact_count
  | get_contact_names "nat option"
  | unknown_tool jsstring

fun callTool ::
  "shell \<Rightarrow> (jsstring \<Rightarrow> jsstring) \<Rightarrow> (formatted list \<Rightarrow> jsstring) \<Rightarrow> request \<Rightarrow> jsstring action" where
  "callTool execSync parseIntText jsonStringify (search_contacts query) =
     searchContacts execSync query"
| "callTool execSync parseIntText jsonStringify (get_contact_by_name nm exact_match) =
     getContactByName execSync nm exact_match"
| "callTool execSync parseIntText jsonStringify (get_all_contacts limit unlimited) =
     getAllContacts execSync jsonStringify limit unlimited"
| "callTool execSync parseIntText jsonStringify check_permissions =
     checkPermissionsAndReport execSync"
| "callTool execSync parseIntText jsonStringify (test_contact_processing sample_size) =
     testContactProcessing execSync sample_size"
| "callTool execSync parseIntText jsonStringify get_contact_count =
     getContactCount execSync parseIntText"
| "callTool execSync parseIntText jsonStringify (get_contact_names limit) =
     getContactNames execSync limit"
| "callTool execSync parseIntText jsonStringify (unknown_tool nm) =
     throw (Error (js ''Unknown tool: '' @ nm))"

definition handleRequest ::
  "shell \<Rightarrow> (jsstring \<Rightarrow> jsstring) \<Rightarrow> (formatted list \<Rightarrow> jsstring) \<Rightarrow> request \<Rightarrow> jsstring action" where
  \<open>handleRequest execSync parseIntText jsonStringify request =
     tryCatch (callTool execSync parseIntText jsonStringify request)
       (\<lambda>error. return'
          (js ''Error accessing contacts: '' @ errorMessage error @ [NL]
          @ [NL]
          @ [0xD83D, 0xDCA1] @ js '' Try using the '' @ [QUOTE] @ js ''check_permissions'' @ [QUOTE]
          @ js '' tool first to diagnose permission issues. You may need to grant Contacts and Automation permissions to Claude Desktop or Terminal in System Preferences.''))\<close>

section \<open>Sample inputs\<close>

text \<open>Sample lines: two well-formed records and one line with two fields only.\<close>

definition goodLine1 :: jsstring where
  "goodLine1 = js ''John Doe'' @ TAB # js ''John'' @ TAB # js ''Doe'' @ TAB # js ''Acme'' @ TAB #
               js ''note'' @ TAB # TAB # js ''john@x.com'' @ TAB # js ''555-1''"

definition goodLine2 :: jsstring where
  "goodLine2 = js ''Jane Smith'' @ TAB # js ''Jane'' @ TAB # js ''Smith'' @ TAB # TAB #
               js ''Another note'' @ TAB # TAB # js ''jane@example.com'' @ TAB # js ''555-9999''"

definition badLine :: jsstring where
  "badLine = js ''Bad'' @ TAB # js ''Line''"

text \<open>Lower-casing on ASCII text: A to Z become a to z, every other code unit stays.\<close>

definition toLowerCaseASCII :: "jsstring \<Rightarrow> jsstring" where
  "toLowerCaseASCII s = map (\<lambda>c. if 0x41 \<le> c \<and> c \<le> 0x5A then c + 0x20 else c) s"

text \<open>A parsed contact.\<close>

definition johnDoe :: contact where
  "johnDoe = \<lparr>name = js ''John Doe'', firstName = js ''John'', lastName = js ''Doe'',
     organization = js ''Acme'', note' = js ''note'', birthday = [],
     emails = [js ''john@x.com''], phones = [js ''555-1'']\<rparr>"

text \<open>A run that fails with exit code 1 and interpreter output on stderr.\<close>

definition failingShell :: shell where
  "failingShell n command timeout =
     Inl \<lparr>status = Some 1, stdout = [],
          stderr = js ''syntax error: secret detail'',
          message = js ''Command failed''\<rparr>"

text \<open>
  An address book whose first three people are Alice, Bob and Carol: \<open>osascript\<close> prints
  the value of the names script, its three parts separated by carriage returns, and a
  final line feed; any other command fails.
\<close>

definition namesReplyShell :: shell where
  "namesReplyShell n command timeout =
     (if command = shellCommand namesScript
      then Inr (js ''Alice'' @ CR # js ''Bob'' @ CR # js ''Carol'' @ [NL])
      else Inl \<lparr>status = Some 1, stdout = [], stderr = [], message = js ''Command failed''\<rparr>)"

text \<open>A machine on which every command succeeds and prints one line.\<close>

definition okShell :: shell where
  "okShell n command timeout = Inr (js ''Alice'' @ [NL])"

text \<open>A machine on which the first command fails and every later one succeeds.\<close>

definition deniedThenGrantedShell :: shell where
  "deniedThenGrantedShell n command timeout =
     (if n = 0
      then Inl \<lparr>status = Some 1, stdout = [], stderr = [], message = js ''Command failed''\<rparr>
      else Inr (js ''Alice'' @ [NL]))"

subsection \<open>A sample host: the proleptic Gregorian calendar in UTC\<close>

text \<open>
  Days since the epoch from a civil date and back, and a host in the UTC time zone whose
  parser reads \<open>YYYY-MM-DD\<close> and nothing else.
\<close>

definition daysFromCivil :: "int \<Rightarrow> int \<Rightarrow> int \<Rightarrow> int" where
  "daysFromCivil y m d =
     (let y' = (if m \<le> 2 then y - 1 else y);
          era = y' div 400;
          yoe = y' - era * 400;
          doy = (153 * (if m > 2 then m - 3 else m + 9) + 2) div 5 + d - 1;
          doe = yoe * 365 + yoe div 4 - yoe div 100 + doy
      in era * 146097 + doe - 719468)"

definition civilFromDays :: "int \<Rightarrow> int \<times> int \<times> int" where
  "civilFromDays z =
     (let z' = z + 719468;
          era = z' div 146097;
          doe = z' - era * 146097;
          yoe = (doe - doe div 1460 + doe div 36524 - doe div 146096) div 365;
          doy = doe - (365 * yoe + yoe div 4 - yoe div 100);
          mp = (5 * doy + 2) div 153;
          d = doy - (153 * mp + 2) div 5 + 1;
          m = (if mp < 10 then mp + 3 else mp - 9);
          y = yoe + era * 400
      in (if m \<le> 2 then y + 1 else y, m, d))"

definition digitsValue :: "jsstring \<Rightarrow> int option" where
  "digitsValue s =
     (if s \<noteq> [] \<and> list_all (\<lambda>c. 0x30 \<le> c \<and> c \<le> 0x39) s
      then Some (foldl (\<lambda>acc c. 10 * acc + (uint c - 48)) 0 s)
      else None)"

definition parseIsoDate :: "jsstring \<Rightarrow> int option" where
  "parseIsoDate s =
     (if length s = 10 \<and> s ! 4 = MINUS \<and> s ! 7 = MINUS then
        (case (digitsValue (take 4 s), digitsValue (take 2 (drop 5 s)), digitsValue (drop 8 s)) of
           (Some y, Some m, Some d) \<Rightarrow>
             if civilFromDays (daysFromCivil y m d) = (y, m, d)
             then Some (daysFromCivil y m d * msPerDay)
             else None
         | _ \<Rightarrow> None)
      else None)"

definition utcHost :: "int \<Rightarrow> dateHost" where
  "utcHost t =
     \<lparr> dateNow = t,
       dateParse = parseIsoDate,
       getFullYear = (\<lambda>t. fst (civilFromDays (t div msPerDay))),
       getMonth = (\<lambda>t. fst (snd (civilFromDays (t div msPerDay))) - 1),
       getDate = (\<lambda>t. snd (snd (civilFromDays (t div msPerDay)))),
       makeDate = (\<lambda>y m d. Some (daysFromCivil y (m + 1) d * msPerDay)),
       setFullYear = (\<lambda>t y.
         (case civilFromDays (t div msPerDay) of
            (_, m, d) \<Rightarrow> Some (daysFromCivil y m d * msPerDay + t mod msPerDay))) \<rparr>"

text \<open>Noon of 15 June 2024 and noon of 31 December 2024, UTC.\<close>

definition noon15June2024 :: int where
  "noon15June2024 = 19889 * msPerDay + 12 * 3600 * 1000"

definition noon31December2024 :: int where
  "noon31December2024 = 20088 * msPerDay + 12 * 3600 * 1000"

section \<open>Predicates and shapes used in the proofs\<close>

text \<open>
  \<open>keepsFlag m\<close>: the method \<open>m\<close> leaves \<open>permissionsChecked\<close> as it found it.
  \<open>growsCalls m\<close>: \<open>m\<close> only adds to the list of commands run. \<open>cachedCheck\<close> is the
  shape shared by \<open>getContactsData\<close> and \<open>getContactsDataUnlimited\<close>: the check behind the
  flag, then the rest.
\<close>

definition keepsFlag :: "'a action \<Rightarrow> bool" where
  "keepsFlag m \<longleftrightarrow> (\<forall>s. permissionsChecked (snd (m s)) = permissionsChecked s)"

definition growsCalls :: "'a action \<Rightarrow> bool" where
  "growsCalls m \<longleftrightarrow> (\<forall>s. prefix (calls s) (calls (snd (m s))))"

definition cachedCheck ::
  "unit action \<Rightarrow> jsstring \<Rightarrow> (exn \<Rightarrow> jsstring) \<Rightarrow> (unit \<Rightarrow> 'a action) \<Rightarrow> 'a action" where
  "cachedCheck check passed failed rest =
     andThen getPermissionsChecked
       (\<lambda>checked.
          andThen
            (if \<not> checked then
               tryCatch
                 (andThen check
                    (\<lambda>_. andThen (setPermissionsChecked True) (\<lambda>_. consoleError passed)))
                 (\<lambda>error. andThen (consoleError (failed error)) (\<lambda>_. throw error))
             else return' ())
            rest)"

section \<open>Properties of the record extractor\<close>

lemma parseLoop_eq:
  "parseLoop ls acc =
     acc @ map (\<lambda>l. contactOfFields (jsSplit TAB l))
             (filter (\<lambda>l. 8 \<le> length (jsSplit TAB l)) ls)"
  by (induction ls arbitrary: acc) (simp_all add: Let_def)

lemma jsSplit_nonempty: "jsSplit sep s \<noteq> []"
  by (induction s) (simp_all add: Let_def)

lemma jsSplit_no_sep: "sep \<notin> set s \<Longrightarrow> jsSplit sep s = [s]"
  by (induction s) (auto simp: Let_def)

lemma jsSplit_append: "sep \<notin> set x \<Longrightarrow> jsSplit sep (x @ sep # rest) = x # jsSplit sep rest"
  by (induction x) (auto simp: Let_def)

lemma jsSplit_jsJoin:
  "xs \<noteq> [] \<Longrightarrow> \<forall>x\<in>set xs. sep \<notin> set x \<Longrightarrow> jsSplit sep (jsJoin sep xs) = xs"
  by (induction sep xs rule: jsJoin.induct) (simp_all add: jsSplit_no_sep jsSplit_append)

lemma dropWhile_all_iff: "(\<forall>x\<in>set (dropWhile P s). P x) \<longleftrightarrow> (\<forall>x\<in>set s. P x)"
  by (induction s) auto

lemma trim_empty_iff: "trim s = [] \<longleftrightarrow> (\<forall>c\<in>set s. isWhiteSpace c)"
  by (simp add: trim_def dropWhile_eq_Nil_conv dropWhile_all_iff)

lemma truthy_trim_iff: "truthy (trim s) \<longleftrightarrow> (\<exists>c\<in>set s. \<not> isWhiteSpace c)"
  by (simp add: truthy_def trim_empty_iff)

lemma parse_eq:
  "parseContactsFromDelimitedData data =
     map (\<lambda>l. contactOfFields (jsSplit TAB l))
       (filter (\<lambda>l. 8 \<le> length (jsSplit TAB l)) (filter (\<lambda>l. truthy (trim l)) (jsSplit NL data)))"
  by (simp add: parseContactsFromDelimitedData_def parseLoop_eq)

lemma lines_jsJoin:
  assumes "\<forall>l\<in>set ls. NL \<notin> set l"
  shows "filter (\<lambda>l. truthy (trim l)) (jsSplit NL (jsJoin NL ls)) = filter (\<lambda>l. truthy (trim l)) ls"
proof (cases "ls = []")
  case True
  then show ?thesis by (simp add: truthy_def trim_def)
next
  case False
  with assms show ?thesis by (simp add: jsSplit_jsJoin)
qed

lemma set_jsJoin_subset: "set (jsJoin sep xs) \<subseteq> insert sep (\<Union>x\<in>set xs. set x)"
  by (induction sep xs rule: jsJoin.induct) auto

lemma set_jsJoin_member: "x \<in> set xs \<Longrightarrow> set x \<subseteq> set (jsJoin sep xs)"
  by (induction sep xs rule: jsJoin.induct) auto

lemma parse_single_line:
  assumes "NL \<notin> set line"
  shows "parseContactsFromDelimitedData line =
    (if truthy (trim line) \<and> 8 \<le> length (jsSplit TAB line)
     then [contactOfFields (jsSplit TAB line)] else [])"
  using assms by (simp add: parse_eq jsSplit_no_sep)

lemma parse_fields_line:
  assumes "\<forall>x\<in>set flds. TAB \<notin> set x \<and> NL \<notin> set x" and "8 \<le> length flds"
  shows "parseContactsFromDelimitedData (jsJoin TAB flds) =
    (if \<exists>x\<in>set flds. truthy (trim x) then [contactOfFields flds] else [])"
proof -
  have ne: "flds \<noteq> []" using assms(2) by auto
  have nl: "NL \<notin> set (jsJoin TAB flds)"
    using set_jsJoin_subset [of TAB flds] assms(1) by (auto simp: TAB_def NL_def)
  have sp: "jsSplit TAB (jsJoin TAB flds) = flds"
    using assms(1) ne by (simp add: jsSplit_jsJoin)
  have "set (jsJoin TAB flds) \<subseteq> insert TAB (\<Union>x\<in>set flds. set x)"
    by (rule set_jsJoin_subset)
  moreover have "isWhiteSpace TAB" by (simp add: isWhiteSpace_def TAB_def)
  ultimately have "truthy (trim (jsJoin TAB flds)) \<Longrightarrow> \<exists>x\<in>set flds. truthy (trim x)"
    unfolding truthy_trim_iff by blast
  moreover have "\<exists>x\<in>set flds. truthy (trim x) \<Longrightarrow> truthy (trim (jsJoin TAB flds))"
    unfolding truthy_trim_iff using set_jsJoin_member [of _ flds TAB] by blast
  ultimately have tr: "truthy (trim (jsJoin TAB flds)) \<longleftrightarrow> (\<exists>x\<in>set flds. truthy (trim x))"
    by blast
  show ?thesis
    using assms(2) by (simp add: parse_single_line [OF nl] sp tr)
qed

lemma splitList_two:
  assumes "SEMI \<notin> set a" "SEMI \<notin> set b" "truthy (trim a)" "truthy (trim b)"
  shows "splitList (a @ SEMI # b) = [a, b]"
  using assms by (simp add: splitList_def truthy_def jsSplit_append jsSplit_no_sep)

lemma splitList_one:
  assumes "SEMI \<notin> set a" "truthy (trim a)"
  shows "splitList a = [a]"
proof -
  from assms(2) have "a \<noteq> []" by (auto simp: truthy_trim_iff)
  with assms show ?thesis by (simp add: splitList_def truthy_def jsSplit_no_sep)
qed

lemma splitList_empty: "splitList [] = []"
  by (simp add: splitList_def truthy_def)

lemma orEmpty_id: "orEmpty s = s"
  by (simp add: orEmpty_def truthy_def)

text \<open>
  Claim C2. Nine strings free of tab, newline and semicolon, with \<open>e1\<close>, \<open>e2\<close>, \<open>p1\<close>
  not blank: the line that joins \<open>[n, f, l, o, note, bday, "e1;e2", "p1"]\<close> with tabs parses
  to exactly one record, whose fields are the eight values in that order with
  \<open>emails = [e1, e2]\<close> and \<open>phones = [p1]\<close>. With the empty string as the email field or as
  the phone field the corresponding list is empty; with both empty the record is still
  the only one, unless the whole line is blank, in which case no record is produced.
\<close>

theorem parse_round_trip:
  assumes free: "\<forall>s\<in>set [n, f, l, o', nt, b, e1, e2, p1].
                   TAB \<notin> set s \<and> NL \<notin> set s \<and> SEMI \<notin> set s"
    and nonblank: "truthy (trim e1)" "truthy (trim e2)" "truthy (trim p1)"
  shows "parseContactsFromDelimitedData (jsJoin TAB [n, f, l, o', nt, b, e1 @ SEMI # e2, p1]) =
           [\<lparr>name = n, firstName = f, lastName = l, organization = o', note' = nt,
             birthday = b, emails = [e1, e2], phones = [p1]\<rparr>]
       \<and> parseContactsFromDelimitedData (jsJoin TAB [n, f, l, o', nt, b, [], p1]) =
           [\<lparr>name = n, firstName = f, lastName = l, organization = o', note' = nt,
             birthday = b, emails = [], phones = [p1]\<rparr>]
       \<and> parseContactsFromDelimitedData (jsJoin TAB [n, f, l, o', nt, b, e1 @ SEMI # e2, []]) =
           [\<lparr>name = n, firstName = f, lastName = l, organization = o', note' = nt,
             birthday = b, emails = [e1, e2], phones = []\<rparr>]
       \<and> parseContactsFromDelimitedData (jsJoin TAB [n, f, l, o', nt, b, [], []]) =
           (if \<exists>s\<in>set [n, f, l, o', nt, b]. truthy (trim s)
            then [\<lparr>name = n, firstName = f, lastName = l, organization = o', note' = nt,
                   birthday = b, emails = [], phones = []\<rparr>]
            else [])"
proof -
  have sem: "SEMI \<noteq> TAB" "SEMI \<noteq> NL" by (simp_all add: SEMI_def TAB_def NL_def)
  have e12: "truthy (trim (e1 @ SEMI # e2))"
    using nonblank(1) unfolding truthy_trim_iff by auto
  have te: "\<not> truthy (trim [])" by (simp add: truthy_def trim_def)
  have A: "\<forall>x\<in>set [n, f, l, o', nt, b, e1 @ SEMI # e2, p1]. TAB \<notin> set x \<and> NL \<notin> set x"
    using free sem by auto
  have B: "\<forall>x\<in>set [n, f, l, o', nt, b, [], p1]. TAB \<notin> set x \<and> NL \<notin> set x"
    using free by auto
  have C: "\<forall>x\<in>set [n, f, l, o', nt, b, e1 @ SEMI # e2, []]. TAB \<notin> set x \<and> NL \<notin> set x"
    using free sem by auto
  have D: "\<forall>x\<in>set [n, f, l, o', nt, b, [], []]. TAB \<notin> set x \<and> NL \<notin> set x"
    using free by auto
  have s2: "splitList (e1 @ SEMI # e2) = [e1, e2]"
    using free nonblank by (simp add: splitList_two)
  have s1: "splitList p1 = [p1]"
    using free nonblank by (simp add: splitList_one)
  have 1: "parseContactsFromDelimitedData (jsJoin TAB [n, f, l, o', nt, b, e1 @ SEMI # e2, p1]) =
           [\<lparr>name = n, firstName = f, lastName = l, organization = o', note' = nt,
             birthday = b, emails = [e1, e2], phones = [p1]\<rparr>]"
    using e12 by (simp add: parse_fields_line [OF A] contactOfFields_def orEmpty_id s1 s2 del: jsJoin.simps)
  have 2: "parseContactsFromDelimitedData (jsJoin TAB [n, f, l, o', nt, b, [], p1]) =
           [\<lparr>name = n, firstName = f, lastName = l, organization = o', note' = nt,
             birthday = b, emails = [], phones = [p1]\<rparr>]"
    using nonblank(3) by (simp add: parse_fields_line [OF B] contactOfFields_def orEmpty_id s1 splitList_empty del: jsJoin.simps)
  have 3: "parseContactsFromDelimitedData (jsJoin TAB [n, f, l, o', nt, b, e1 @ SEMI # e2, []]) =
           [\<lparr>name = n, firstName = f, lastName = l, organization = o', note' = nt,
             birthday = b, emails = [e1, e2], phones = []\<rparr>]"
    using e12 by (simp add: parse_fields_line [OF C] contactOfFields_def orEmpty_id s2 splitList_empty del: jsJoin.simps)
  have 4: "parseContactsFromDelimitedData (jsJoin TAB [n, f, l, o', nt, b, [], []]) =
           (if \<exists>s\<in>set [n, f, l, o', nt, b]. truthy (trim s)
            then [\<lparr>name = n, firstName = f, lastName = l, organization = o', note' = nt,
                   birthday = b, emails = [], phones = []\<rparr>]
            else [])"
    using te by (simp add: parse_fields_line [OF D] contactOfFields_def orEmpty_id splitList_empty del: jsJoin.simps)
  from 1 2 3 4 show ?thesis by blast
qed

text \<open>The round trip of C2 on the record of John Doe.\<close>

theorem parse_round_trip_witness:
  "truthy (trim (js ''john@x.com'')) \<and> truthy (trim (js ''jd@work.com''))
   \<and> truthy (trim (js ''555-1''))
   \<and> parseContactsFromDelimitedData
        (js ''John Doe'' @ TAB # js ''John'' @ TAB # js ''Doe'' @ TAB # js ''Acme'' @ TAB #
         js ''note'' @ TAB # TAB # js ''john@x.com'' @ SEMI # js ''jd@work.com'' @ TAB # js ''555-1'') =
       [\<lparr>name = js ''John Doe'', firstName = js ''John'', lastName = js ''Doe'',
         organization = js ''Acme'', note' = js ''note'', birthday = [],
         emails = [js ''john@x.com'', js ''jd@work.com''], phones = [js ''555-1'']\<rparr>]"
proof -
  have h1: "\<forall>s\<in>set [js ''John Doe'', js ''John'', js ''Doe'', js ''Acme'', js ''note'', [],
               js ''john@x.com'', js ''jd@work.com'', js ''555-1''].
      TAB \<notin> set s \<and> NL \<notin> set s \<and> SEMI \<notin> set s"
    by code_simp
  have h2: "truthy (trim (js ''john@x.com''))" by code_simp
  have h3: "truthy (trim (js ''jd@work.com''))" by code_simp
  have h4: "truthy (trim (js ''555-1''))" by code_simp
  show ?thesis
    using h1 h2 h3 h4 parse_round_trip [OF h1 h2 h3 h4] by simp
qed

lemma parse_joined_lines:
  assumes "\<forall>l\<in>set ls. NL \<notin> set l"
  shows "parseContactsFromDelimitedData (jsJoin NL ls) =
         concat (map parseContactsFromDelimitedData ls)"
proof -
  have "concat (map parseContactsFromDelimitedData ls) =
        map (\<lambda>l. contactOfFields (jsSplit TAB l))
          (filter (\<lambda>l. 8 \<le> length (jsSplit TAB l)) (filter (\<lambda>l. truthy (trim l)) ls))"
    using assms by (induction ls) (simp_all add: parse_single_line)
  then show ?thesis
    using assms by (simp add: parse_eq lines_jsJoin)
qed

text \<open>
  Claim C1. \<open>parseContactsFromDelimitedData\<close> is a total function from strings to
  sequences of records: the empty input gives the empty sequence, a line whose tab-split
  has fewer than 8 fields gives no record, and taking such a line out of the input
  changes nothing, because the result is the concatenation of what each line gives on its
  own.
\<close>

theorem parse_skips_short_lines:
  assumes "\<forall>l\<in>set (before @ bad # after). NL \<notin> set l"
    and "length (jsSplit TAB bad) < 8"
  shows "parseContactsFromDelimitedData [] = []
       \<and> parseContactsFromDelimitedData bad = []
       \<and> parseContactsFromDelimitedData (jsJoin NL (before @ bad # after)) =
           parseContactsFromDelimitedData (jsJoin NL (before @ after))
       \<and> parseContactsFromDelimitedData (jsJoin NL (before @ bad # after)) =
           concat (map parseContactsFromDelimitedData (before @ after))"
proof -
  have nl: "\<forall>l\<in>set (before @ after). NL \<notin> set l" "NL \<notin> set bad"
    using assms(1) by auto
  have 1: "parseContactsFromDelimitedData [] = []"
    by (simp add: parseContactsFromDelimitedData_def truthy_def trim_def)
  have 2: "parseContactsFromDelimitedData bad = []"
    using assms(2) nl(2) by (simp add: parse_single_line)
  have 3: "parseContactsFromDelimitedData (jsJoin NL (before @ bad # after)) =
           concat (map parseContactsFromDelimitedData (before @ after))"
    using 2 by (simp add: parse_joined_lines [OF assms(1)])
  have 4: "parseContactsFromDelimitedData (jsJoin NL (before @ after)) =
           concat (map parseContactsFromDelimitedData (before @ after))"
    by (rule parse_joined_lines [OF nl(1)])
  from 1 2 3 4 show ?thesis by simp
qed

text \<open>C1 on two well-formed lines with a two-field line between them.\<close>

theorem parse_skips_short_lines_witness:
  "NL \<notin> set goodLine1 \<and> NL \<notin> set badLine \<and> NL \<notin> set goodLine2
   \<and> length (jsSplit TAB badLine) < 8
   \<and> parseContactsFromDelimitedData (goodLine1 @ NL # badLine @ NL # goodLine2) =
     parseContactsFromDelimitedData (goodLine1 @ NL # goodLine2)
   \<and> length (parseContactsFromDelimitedData (goodLine1 @ NL # goodLine2)) = 2"
proof -
  have h1: "\<forall>l\<in>set ([goodLine1] @ badLine # [goodLine2]). NL \<notin> set l" by code_simp
  have h2: "length (jsSplit TAB badLine) < 8" by code_simp
  have h3: "length (parseContactsFromDelimitedData (goodLine1 @ NL # goodLine2)) = 2" by code_simp
  show ?thesis
    using h1 h2 h3 parse_skips_short_lines [OF h1 h2] by simp
qed

text \<open>
  Claim C10. The result has one record for each non-blank line with at least 8 tab
  fields, and its \<open>k\<close>-th record is built from the \<open>k\<close>-th such line in input order.
\<close>

theorem parse_preserves_order:
  "length (parseContactsFromDelimitedData data) =
     length (filter (\<lambda>l. 8 \<le> length (jsSplit TAB l))
              (filter (\<lambda>l. truthy (trim l)) (jsSplit NL data)))
   \<and> (\<forall>k < length (parseContactsFromDelimitedData data).
        parseContactsFromDelimitedData data ! k =
        contactOfFields (jsSplit TAB
          (filter (\<lambda>l. 8 \<le> length (jsSplit TAB l))
            (filter (\<lambda>l. truthy (trim l)) (jsSplit NL data)) ! k)))"
  by (simp add: parse_eq)

text \<open>C10 with a short line and an empty line before the second record.\<close>

theorem parse_preserves_order_witness:
  "1 < length (parseContactsFromDelimitedData (goodLine1 @ NL # badLine @ NL # NL # goodLine2))
   \<and> parseContactsFromDelimitedData (goodLine1 @ NL # badLine @ NL # NL # goodLine2) ! 1 =
     contactOfFields (jsSplit TAB goodLine2)"
proof -
  have h: "1 < length (parseContactsFromDelimitedData (goodLine1 @ NL # badLine @ NL # NL # goodLine2))"
    by code_simp
  have q: "filter (\<lambda>l. 8 \<le> length (jsSplit TAB l))
            (filter (\<lambda>l. truthy (trim l)) (jsSplit NL (goodLine1 @ NL # badLine @ NL # NL # goodLine2))) ! 1
           = goodLine2"
    by code_simp
  show ?thesis
    using h q parse_preserves_order [of "goodLine1 @ NL # badLine @ NL # NL # goodLine2"]
    by simp
qed

text \<open>
  Claim C3. The input is split at \<open>\n\<close> only. Two records separated by a carriage return
  stay one line of 15 fields: one record comes out, the second contact is lost and the
  carriage return ends up inside the first contact's phone number. The split the sibling
  handlers use, \<open>/[\r\n]+/\<close>, gives the two lines.
\<close>

theorem parse_cr_separated_is_one_line:
  "parseContactsFromDelimitedData
     (js ''A'' @ [TAB, TAB, TAB, TAB, TAB, TAB] @ js ''a@x'' @ TAB # js ''1'' @ CR #
      js ''B'' @ [TAB, TAB, TAB, TAB, TAB, TAB] @ js ''b@x'' @ TAB # js ''2'') =
   [\<lparr>name = js ''A'', firstName = [], lastName = [], organization = [], note' = [],
     birthday = [], emails = [js ''a@x''], phones = [js ''1'' @ CR # js ''B'']\<rparr>]
   \<and> filter (\<lambda>line. truthy (trim line))
       (jsSplitRuns isCRLF
         (js ''A'' @ [TAB, TAB, TAB, TAB, TAB, TAB] @ js ''a@x'' @ TAB # js ''1'' @ CR #
          js ''B'' @ [TAB, TAB, TAB, TAB, TAB, TAB] @ js ''b@x'' @ TAB # js ''2'')) =
     [js ''A'' @ [TAB, TAB, TAB, TAB, TAB, TAB] @ js ''a@x'' @ TAB # js ''1'',
      js ''B'' @ [TAB, TAB, TAB, TAB, TAB, TAB] @ js ''b@x'' @ TAB # js ''2'']"
  by code_simp

text \<open>
  The example of the specification: a well-formed line followed by a line of two fields
  gives exactly the first line's record.
\<close>

theorem parse_john_doe_example:
  "parseContactsFromDelimitedData (goodLine1 @ NL # badLine) =
   [\<lparr>name = js ''John Doe'', firstName = js ''John'', lastName = js ''Doe'',
     organization = js ''Acme'', note' = js ''note'', birthday = [],
     emails = [js ''john@x.com''], phones = [js ''555-1'']\<rparr>]"
  by code_simp

section \<open>Properties of matchesQuery\<close>

lemma jsIncludes_iff: "jsIncludes s t \<longleftrightarrow> (\<exists>ps ss. s = ps @ t @ ss)"
proof (induction s)
  case Nil
  then show ?case by auto
next
  case (Cons c cs)
  have "(\<exists>ps ss. c # cs = ps @ t @ ss) \<longleftrightarrow> prefix t (c # cs) \<or> (\<exists>ps ss. cs = ps @ t @ ss)"
  proof
    assume "\<exists>ps ss. c # cs = ps @ t @ ss"
    then obtain ps ss where e: "c # cs = ps @ t @ ss" by blast
    show "prefix t (c # cs) \<or> (\<exists>ps ss. cs = ps @ t @ ss)"
    proof (cases ps)
      case Nil
      with e show ?thesis by (auto simp: prefix_def)
    next
      case (Cons p ps')
      with e have "cs = ps' @ t @ ss" by simp
      then show ?thesis by blast
    qed
  next
    assume "prefix t (c # cs) \<or> (\<exists>ps ss. cs = ps @ t @ ss)"
    then show "\<exists>ps ss. c # cs = ps @ t @ ss"
    proof
      assume "prefix t (c # cs)"
      then obtain ss where "c # cs = t @ ss" by (auto simp: prefix_def)
      then have "c # cs = [] @ t @ ss" by simp
      then show ?thesis by blast
    next
      assume "\<exists>ps ss. cs = ps @ t @ ss"
      then obtain ps ss where "cs = ps @ t @ ss" by blast
      then have "c # cs = (c # ps) @ t @ ss" by simp
      then show ?thesis by blast
    qed
  qed
  with Cons show ?case by simp
qed

lemma bex_filter: "(\<exists>x\<in>set (filter P xs). Q x) \<longleftrightarrow> (\<exists>x\<in>set xs. P x \<and> Q x)"
  by auto

lemma matchesQuery_Some:
  "matchesQuery toLowerCase c (Some q) \<longleftrightarrow>
     q = [] \<or>
     (\<exists>field\<in>set ([name c, firstName c, lastName c, organization c, note' c]
                     @ emails c @ phones c).
        field \<noteq> [] \<and> jsIncludes (toLowerCase field) (toLowerCase q))"
proof (cases "q = []")
  case True
  then show ?thesis by (simp add: matchesQuery_def truthy_def)
next
  case False
  then have "matchesQuery toLowerCase c (Some q) \<longleftrightarrow>
      list_ex (\<lambda>field. jsIncludes (toLowerCase field) (toLowerCase q)) (searchableFields c)"
    by (simp add: matchesQuery_def truthy_def)
  also have "\<dots> \<longleftrightarrow> (\<exists>field\<in>set ([name c, firstName c, lastName c, organization c, note' c]
                     @ emails c @ phones c).
        truthy field \<and> jsIncludes (toLowerCase field) (toLowerCase q))"
    by (simp only: list_ex_iff searchableFields_def bex_filter)
  finally show ?thesis
    using False by (simp only: truthy_def simp_thms)
qed

text \<open>
  Claim C4. \<open>matchesQuery\<close> is true for an absent or empty query; for any other query it
  is true exactly when the lower-cased query is a substring of the lower-cased text of one
  of the non-empty searchable fields: name, firstName, lastName, organization, note, each
  email, each phone. The statement holds for every lower-casing function.
\<close>

theorem matchesQuery_iff:
  "matchesQuery toLowerCase c query \<longleftrightarrow>
     query = None \<or> query = Some [] \<or>
     (\<exists>q. query = Some q \<and>
        (\<exists>field\<in>set ([name c, firstName c, lastName c, organization c, note' c]
                        @ emails c @ phones c).
          field \<noteq> [] \<and> (\<exists>ps ss. toLowerCase field = ps @ toLowerCase q @ ss)))"
proof (cases query)
  case None
  then show ?thesis by (simp add: matchesQuery_def)
next
  case (Some q)
  then show ?thesis
    unfolding Some matchesQuery_Some jsIncludes_iff by simp
qed

text \<open>C4 on John Doe: "ACME" matches the organization, "zz" matches nothing.\<close>

theorem matchesQuery_iff_witness:
  "matchesQuery toLowerCaseASCII johnDoe (Some (js ''ACME''))
   \<and> \<not> matchesQuery toLowerCaseASCII johnDoe (Some (js ''zz''))
   \<and> matchesQuery toLowerCaseASCII johnDoe (Some [])
   \<and> matchesQuery toLowerCaseASCII johnDoe None"
proof -
  have a: "toLowerCaseASCII (js ''Acme'') = [] @ toLowerCaseASCII (js ''ACME'') @ []"
    by code_simp
  have m: "js ''Acme'' \<in> set ([name johnDoe, firstName johnDoe, lastName johnDoe,
             organization johnDoe, note' johnDoe] @ emails johnDoe @ phones johnDoe)"
    by (simp add: johnDoe_def)
  have ne: "js ''Acme'' \<noteq> []" by (simp add: js_def)
  have 1: "matchesQuery toLowerCaseASCII johnDoe (Some (js ''ACME''))"
    unfolding matchesQuery_iff [of toLowerCaseASCII johnDoe "Some (js ''ACME'')"]
    using a m ne by blast
  have 2: "\<not> matchesQuery toLowerCaseASCII johnDoe (Some (js ''zz''))" by code_simp
  have 3: "matchesQuery toLowerCaseASCII johnDoe (Some [])"
    unfolding matchesQuery_iff [of toLowerCaseASCII johnDoe "Some []"] by simp
  have 4: "matchesQuery toLowerCaseASCII johnDoe None"
    unfolding matchesQuery_iff [of toLowerCaseASCII johnDoe None] by simp
  from 1 2 3 4 show ?thesis by blast
qed

section \<open>Properties of executeAppleScript\<close>

lemma replaceAll_concat:
  "replaceAll p r s = concat (map (\<lambda>c. if c = p then r else [c]) s)"
  by (induction s) simp_all

lemma shQuoted_escaped:
  "shQuoted word (replaceAll QUOTE [QUOTE, BACKSLASH, QUOTE, QUOTE] s @ QUOTE # rest) =
   shUnquoted (word @ s) rest"
proof (induction s arbitrary: word)
  case Nil
  then show ?case by simp
next
  case (Cons c cs)
  have ne: "BACKSLASH \<noteq> QUOTE" "QUOTE \<noteq> NL"
    by (simp_all add: BACKSLASH_def QUOTE_def NL_def)
  show ?case
  proof (cases "c = QUOTE")
    case True
    then show ?thesis using ne Cons.IH [of "word @ [QUOTE]"] by simp
  next
    case False
    then show ?thesis using Cons.IH [of "word @ [c]"] by simp
  qed
qed

lemma js_prefix_length: "length (js ''osascript -e '') = 13"
  by (simp add: js_def)

text \<open>
  Claim C6. The command given to \<open>execSync\<close> is \<open>osascript -e '...' 2>/dev/null\<close> with
  every single quote of the script replaced by the four characters \<open>'\''\<close>, and the shell
  reads the quoted argument back as one word that is the script itself, for every script.
\<close>

theorem executeAppleScript_quotes_payload:
  "calls (snd (executeAppleScript execSync script s)) =
     calls s @ [(shellCommand script, timeoutFor script)]
   \<and> shellCommand script =
       js ''osascript -e '' @ QUOTE #
       concat (map (\<lambda>c. if c = QUOTE then [QUOTE, BACKSLASH, QUOTE, QUOTE] else [c]) script)
       @ QUOTE # js '' 2>/dev/null''
   \<and> shUnquoted [] (drop (length (js ''osascript -e '')) (shellCommand script)) =
       Some (script, js '' 2>/dev/null'')"
proof -
  have 1: "calls (snd (executeAppleScript execSync script s)) =
     calls s @ [(shellCommand script, timeoutFor script)]"
    by (simp add: executeAppleScript_def Let_def split: sum.split)
  have 2: "shellCommand script =
       js ''osascript -e '' @ QUOTE #
       concat (map (\<lambda>c. if c = QUOTE then [QUOTE, BACKSLASH, QUOTE, QUOTE] else [c]) script)
       @ QUOTE # js '' 2>/dev/null''"
    by (simp only: shellCommand_def replaceAll_concat)
  have sp: "js '' 2>/dev/null'' = SPACE # js ''2>/dev/null''"
    by (simp add: js_def SPACE_def)
  have "drop (length (js ''osascript -e '')) (shellCommand script) =
        QUOTE # replaceAll QUOTE [QUOTE, BACKSLASH, QUOTE, QUOTE] script @ QUOTE # js '' 2>/dev/null''"
    by (simp add: shellCommand_def)
  then have "shUnquoted [] (drop (length (js ''osascript -e '')) (shellCommand script)) =
        shUnquoted script (js '' 2>/dev/null'')"
    by (simp add: shQuoted_escaped)
  also have "\<dots> = Some (script, js '' 2>/dev/null'')"
    unfolding sp by (simp add: SPACE_def QUOTE_def BACKSLASH_def)
  finally have 3: "shUnquoted [] (drop (length (js ''osascript -e '')) (shellCommand script)) =
       Some (script, js '' 2>/dev/null'')" .
  from 1 2 3 show ?thesis by blast
qed

text \<open>C6 on the script \<open>return 'it's\<close>.\<close>

theorem executeAppleScript_quotes_payload_witness:
  "shellCommand (js ''return '' @ QUOTE # js ''it'' @ QUOTE # js ''s'') =
     js ''osascript -e '' @ QUOTE # js ''return '' @ [QUOTE, BACKSLASH, QUOTE, QUOTE] @ js ''it''
       @ [QUOTE, BACKSLASH, QUOTE, QUOTE] @ js ''s'' @ QUOTE # js '' 2>/dev/null''
   \<and> shUnquoted [] (drop 13 (shellCommand (js ''return '' @ QUOTE # js ''it'' @ QUOTE # js ''s''))) =
     Some (js ''return '' @ QUOTE # js ''it'' @ QUOTE # js ''s'', js '' 2>/dev/null'')"
proof -
  have a: "shellCommand (js ''return '' @ QUOTE # js ''it'' @ QUOTE # js ''s'') =
     js ''osascript -e '' @ QUOTE # js ''return '' @ [QUOTE, BACKSLASH, QUOTE, QUOTE] @ js ''it''
       @ [QUOTE, BACKSLASH, QUOTE, QUOTE] @ js ''s'' @ QUOTE # js '' 2>/dev/null''"
    by code_simp
  have b: "shUnquoted [] (drop 13 (shellCommand (js ''return '' @ QUOTE # js ''it'' @ QUOTE # js ''s''))) =
     Some (js ''return '' @ QUOTE # js ''it'' @ QUOTE # js ''s'', js '' 2>/dev/null'')"
  proof -
    have "shUnquoted [] (drop (length (js ''osascript -e ''))
            (shellCommand (js ''return '' @ QUOTE # js ''it'' @ QUOTE # js ''s''))) =
          Some (js ''return '' @ QUOTE # js ''it'' @ QUOTE # js ''s'', js '' 2>/dev/null'')"
      using executeAppleScript_quotes_payload
        [of failingShell "js ''return '' @ QUOTE # js ''it'' @ QUOTE # js ''s''" initialState]
      by blast
    then show ?thesis by (simp only: js_prefix_length)
  qed
  from a b show ?thesis by blast
qed

text \<open>
  Claim C7. When the external process fails, \<open>executeAppleScript\<close> throws an error whose
  message is the fixed text with the exit status and nothing else: it is the same whatever
  the process wrote. The output goes to the first of the two lines written to the
  console, and the flag is left alone.
\<close>

theorem executeAppleScript_failure_status_only:
  assumes "execSync (length (calls s)) (shellCommand script) (timeoutFor script) = Inl e"
  shows "fst (executeAppleScript execSync script s) =
           Inl (Error (js ''Failed to execute AppleScript (exit code: '' @ showStatus (status e)
                         @ js '')''))
       \<and> console (snd (executeAppleScript execSync script s)) =
           console s @
           [js ''AppleScript execution failed (exit code: '' @ showStatus (status e) @ js ''): ''
              @ (if stdout e \<noteq> [] then stdout e else if stderr e \<noteq> [] then stderr e else message e),
            js ''Script was: '' @ take 200 script @ js ''...'']
       \<and> permissionsChecked (snd (executeAppleScript execSync script s)) = permissionsChecked s"
  using assms by (simp add: executeAppleScript_def Let_def truthy_def)

text \<open>C7 on a run that exits with status 1 and a message on stderr.\<close>

theorem executeAppleScript_failure_status_only_witness:
  "fst (executeAppleScript failingShell (js ''invalid applescript syntax here'') initialState) =
     Inl (Error (js ''Failed to execute AppleScript (exit code: 1)''))
   \<and> console (snd (executeAppleScript failingShell (js ''invalid applescript syntax here'') initialState)) =
     [js ''AppleScript execution failed (exit code: 1): syntax error: secret detail'',
      js ''Script was: invalid applescript syntax here...'']"
proof -
  have h: "failingShell (length (calls initialState))
             (shellCommand (js ''invalid applescript syntax here''))
             (timeoutFor (js ''invalid applescript syntax here'')) =
           Inl \<lparr>status = Some 1, stdout = [], stderr = js ''syntax error: secret detail'',
                message = js ''Command failed''\<rparr>"
    by (simp add: failingShell_def)
  have st: "showStatus (Some 1) = js ''1''" by code_simp
  show ?thesis
    using executeAppleScript_failure_status_only
      [where execSync = failingShell and s = initialState
         and script = "js ''invalid applescript syntax here''", OF h]
    by (simp add: st initialState_def js_def)
qed

section \<open>Properties of the server state\<close>

lemma keepsFlag_return [simp]: "keepsFlag (return' v)"
  by (simp add: keepsFlag_def return'_def)

lemma keepsFlag_throw [simp]: "keepsFlag (throw e)"
  by (simp add: keepsFlag_def throw_def)

lemma keepsFlag_consoleError [simp]: "keepsFlag (consoleError l)"
  by (simp add: keepsFlag_def consoleError_def)

lemma keepsFlag_executeAppleScript [simp]: "keepsFlag (executeAppleScript execSync script)"
  by (simp add: keepsFlag_def executeAppleScript_def Let_def split: sum.split)

lemma keepsFlag_andThen [intro!]:
  assumes "keepsFlag m" and "\<And>v. keepsFlag (f v)"
  shows "keepsFlag (andThen m f)"
  unfolding keepsFlag_def
proof
  fix s
  obtain r s1 where ms: "m s = (r, s1)" by (cases "m s")
  have 1: "permissionsChecked s1 = permissionsChecked s"
    using assms(1) ms unfolding keepsFlag_def by (metis snd_conv)
  show "permissionsChecked (snd (andThen m f s)) = permissionsChecked s"
  proof (cases r)
    case (Inl e)
    with ms 1 show ?thesis by (simp add: andThen_def)
  next
    case (Inr v)
    have "permissionsChecked (snd (f v s1)) = permissionsChecked s1"
      using assms(2) [of v] unfolding keepsFlag_def by blast
    with Inr ms 1 show ?thesis by (simp add: andThen_def)
  qed
qed

lemma keepsFlag_tryCatch [intro!]:
  assumes "keepsFlag m" and "\<And>e. keepsFlag (h e)"
  shows "keepsFlag (tryCatch m h)"
  unfolding keepsFlag_def
proof
  fix s
  obtain r s1 where ms: "m s = (r, s1)" by (cases "m s")
  have 1: "permissionsChecked s1 = permissionsChecked s"
    using assms(1) ms unfolding keepsFlag_def by (metis snd_conv)
  show "permissionsChecked (snd (tryCatch m h s)) = permissionsChecked s"
  proof (cases r)
    case (Inl e)
    have "permissionsChecked (snd (h e s1)) = permissionsChecked s1"
      using assms(2) [of e] unfolding keepsFlag_def by blast
    with Inl ms 1 show ?thesis by (simp add: tryCatch_def)
  next
    case (Inr v)
    with ms 1 show ?thesis by (simp add: tryCatch_def)
  qed
qed

lemma keepsFlag_checkPermissions [simp]: "keepsFlag (checkPermissions execSync)"
  unfolding checkPermissions_def by (intro keepsFlag_andThen keepsFlag_tryCatch) simp_all

lemma keepsFlag_checkPermissionsAndReport: "keepsFlag (checkPermissionsAndReport execSync)"
  unfolding checkPermissionsAndReport_def by (intro keepsFlag_andThen keepsFlag_tryCatch) simp_all

lemma keepsFlag_getContactCount: "keepsFlag (getContactCount execSync parseIntText)"
  unfolding getContactCount_def Let_def by (intro keepsFlag_andThen keepsFlag_tryCatch) simp_all

lemma keepsFlag_getContactNames: "keepsFlag (getContactNames execSync limit)"
  unfolding getContactNames_def Let_def by (intro keepsFlag_andThen keepsFlag_tryCatch) simp_all

lemma keepsFlag_testContactProcessing: "keepsFlag (testContactProcessing execSync n)"
  unfolding testContactProcessing_def Let_def by (intro keepsFlag_andThen keepsFlag_tryCatch) simp_all

lemma keepsFlag_searchAllContacts: "keepsFlag (searchAllContacts execSync)"
  unfolding searchAllContacts_def Let_def by (intro keepsFlag_andThen keepsFlag_tryCatch) simp_all

lemma keepsFlag_searchContactsMatching: "keepsFlag (searchContactsMatching execSync q)"
  unfolding searchContactsMatching_def Let_def by (intro keepsFlag_andThen keepsFlag_tryCatch) simp_all

lemma keepsFlag_searchContacts: "keepsFlag (searchContacts execSync q)"
  unfolding searchContacts_def
  by (intro keepsFlag_andThen keepsFlag_tryCatch)
     (simp_all add: keepsFlag_searchAllContacts keepsFlag_searchContactsMatching split: option.split)

lemma keepsFlag_getContactByName: "keepsFlag (getContactByName execSync nm exact)"
  unfolding getContactByName_def Let_def by (intro keepsFlag_andThen keepsFlag_tryCatch) simp_all

lemma cachedCheck_checked:
  "permissionsChecked s \<Longrightarrow> cachedCheck check passed failed rest s = rest () s"
  by (simp add: cachedCheck_def andThen_def getPermissionsChecked_def return'_def)

lemma cachedCheck_ok:
  "\<not> permissionsChecked s \<Longrightarrow> check s = (Inr (), s1) \<Longrightarrow>
   cachedCheck check passed failed rest s =
     rest () (s1\<lparr>permissionsChecked := True, console := console s1 @ [passed]\<rparr>)"
  by (simp add: cachedCheck_def andThen_def tryCatch_def getPermissionsChecked_def
      setPermissionsChecked_def consoleError_def return'_def)

lemma cachedCheck_fail:
  "\<not> permissionsChecked s \<Longrightarrow> check s = (Inl e, s1) \<Longrightarrow>
   cachedCheck check passed failed rest s = (Inl e, s1\<lparr>console := console s1 @ [failed e]\<rparr>)"
  by (simp add: cachedCheck_def andThen_def tryCatch_def getPermissionsChecked_def
      consoleError_def throw_def)

lemma getContactsData_cached:
  "getContactsData execSync =
     cachedCheck (checkPermissions execSync) (js ''Initial permissions check passed'')
       (\<lambda>error. js ''Permission check failed: '' @ errorMessage error)
       (\<lambda>_. andThen (executeAppleScript execSync contactsScript)
          (\<lambda>result.
             if \<not> truthy result then
               andThen (consoleError (js ''No result returned from AppleScript''))
                 (\<lambda>_. return' [])
             else
               (let contacts = parseContactsFromDelimitedData result in
                andThen (consoleError (js ''Successfully parsed '' @ showNat (length contacts)
                                        @ js '' contacts from AppleScript''))
                  (\<lambda>_. return' contacts))))"
  by (simp add: getContactsData_def cachedCheck_def)

lemma getContactsDataUnlimited_cached:
  "getContactsDataUnlimited execSync =
     cachedCheck (checkPermissions execSync) (js ''Initial permissions check passed'')
       (\<lambda>error. js ''Permission check failed: '' @ errorMessage error)
       (\<lambda>_. andThen (executeAppleScript execSync contactsScriptUnlimited)
          (\<lambda>result.
             if \<not> truthy result then
               andThen (consoleError (js ''No result returned from AppleScript''))
                 (\<lambda>_. return' [])
             else
               (let contacts = parseContactsFromDelimitedData result in
                andThen (consoleError (js ''Successfully parsed '' @ showNat (length contacts)
                                        @ js '' contacts from AppleScript (unlimited)''))
                  (\<lambda>_. return' contacts))))"
  by (simp add: getContactsDataUnlimited_def cachedCheck_def)

lemma keepsFlagD: "keepsFlag m \<Longrightarrow> permissionsChecked (snd (m s)) = permissionsChecked s"
  by (simp add: keepsFlag_def)

lemma keepsFlag_fetch:
  "keepsFlag (andThen (executeAppleScript execSync script)
          (\<lambda>result.
             if \<not> truthy result then andThen (consoleError l) (\<lambda>_. return' [])
             else (let contacts = parseContactsFromDelimitedData result in
                   andThen (consoleError (l' contacts)) (\<lambda>_. return' contacts))))"
  by (intro keepsFlag_andThen) (simp_all add: Let_def keepsFlag_andThen)

lemma calls_fetch:
  "calls (snd (andThen (executeAppleScript execSync script)
          (\<lambda>result.
             if \<not> truthy result then andThen (consoleError l) (\<lambda>_. return' [])
             else (let contacts = parseContactsFromDelimitedData result in
                   andThen (consoleError (l' contacts)) (\<lambda>_. return' contacts))) s)) =
   calls s @ [(shellCommand script, timeoutFor script)]"
  by (simp add: andThen_def executeAppleScript_def consoleError_def return'_def Let_def
      split: sum.split)

lemma keepsFlag_imp_mono:
  "keepsFlag m \<Longrightarrow> permissionsChecked s \<Longrightarrow> permissionsChecked (snd (m s))"
  by (simp add: keepsFlag_def)

lemma getContactsData_mono:
  "permissionsChecked s \<Longrightarrow> permissionsChecked (snd (getContactsData execSync s))"
  by (simp add: getContactsData_cached cachedCheck_checked keepsFlagD [OF keepsFlag_fetch])

lemma getContactsDataUnlimited_mono:
  "permissionsChecked s \<Longrightarrow> permissionsChecked (snd (getContactsDataUnlimited execSync s))"
  by (simp add: getContactsDataUnlimited_cached cachedCheck_checked keepsFlagD [OF keepsFlag_fetch])

lemma andThen_mono:
  assumes "permissionsChecked (snd (m s))" and "\<And>v. keepsFlag (f v)"
  shows "permissionsChecked (snd (andThen m f s))"
proof -
  obtain r s1 where ms: "m s = (r, s1)" by (cases "m s")
  show ?thesis
  proof (cases r)
    case (Inl e)
    with ms assms(1) show ?thesis by (simp add: andThen_def)
  next
    case (Inr v)
    with ms assms(1) keepsFlagD [OF assms(2) [of v], of s1] show ?thesis
      by (simp add: andThen_def)
  qed
qed

lemma getAllContacts_mono:
  "permissionsChecked s \<Longrightarrow>
   permissionsChecked (snd (getAllContacts execSync jsonStringify limit unlimited s))"
  unfolding getAllContacts_def
  by (rule andThen_mono) (simp_all add: getContactsData_mono getContactsDataUnlimited_mono Let_def)

lemma callTool_keeps:
  "\<forall>limit unlimited. request \<noteq> get_all_contacts limit unlimited \<Longrightarrow>
   keepsFlag (callTool execSync parseIntText jsonStringify request)"
  by (cases request)
     (auto simp add: keepsFlag_searchContacts keepsFlag_getContactByName
        keepsFlag_checkPermissionsAndReport keepsFlag_testContactProcessing
        keepsFlag_getContactCount keepsFlag_getContactNames)

lemma callTool_mono:
  "permissionsChecked s \<Longrightarrow>
   permissionsChecked (snd (callTool execSync parseIntText jsonStringify request s))"
proof (cases "\<exists>limit unlimited. request = get_all_contacts limit unlimited")
  case True
  then show "permissionsChecked s \<Longrightarrow> ?thesis" by (auto simp: getAllContacts_mono)
next
  case False
  then have "keepsFlag (callTool execSync parseIntText jsonStringify request)"
    by (intro callTool_keeps) simp
  then show "permissionsChecked s \<Longrightarrow> ?thesis" by (simp add: keepsFlagD)
qed

lemma tryCatch_return_flag:
  "permissionsChecked (snd (tryCatch m (\<lambda>error. return' (t error)) s)) =
   permissionsChecked (snd (m s))"
  by (cases "m s") (auto simp: tryCatch_def return'_def split: sum.split)

lemma growsCallsD: "growsCalls m \<Longrightarrow> prefix (calls s) (calls (snd (m s)))"
  by (simp add: growsCalls_def)

lemma growsCalls_return [simp]: "growsCalls (return' v)"
  by (simp add: growsCalls_def return'_def)

lemma growsCalls_throw [simp]: "growsCalls (throw e)"
  by (simp add: growsCalls_def throw_def)

lemma growsCalls_consoleError [simp]: "growsCalls (consoleError l)"
  by (simp add: growsCalls_def consoleError_def)

lemma growsCalls_executeAppleScript [simp]: "growsCalls (executeAppleScript execSync script)"
  by (simp add: growsCalls_def executeAppleScript_def Let_def split: sum.split)

lemma calls_andThen_prefix:
  assumes "\<And>v. growsCalls (f v)"
  shows "prefix (calls (snd (m s))) (calls (snd (andThen m f s)))"
proof -
  obtain r s1 where ms: "m s = (r, s1)" by (cases "m s")
  show ?thesis
  proof (cases r)
    case (Inl e)
    with ms show ?thesis by (simp add: andThen_def)
  next
    case (Inr v)
    with ms growsCallsD [OF assms [of v], of s1] show ?thesis by (simp add: andThen_def)
  qed
qed

lemma calls_tryCatch_prefix:
  assumes "\<And>e. growsCalls (h e)"
  shows "prefix (calls (snd (m s))) (calls (snd (tryCatch m h s)))"
proof -
  obtain r s1 where ms: "m s = (r, s1)" by (cases "m s")
  show ?thesis
  proof (cases r)
    case (Inl e)
    with ms growsCallsD [OF assms [of e], of s1] show ?thesis by (simp add: tryCatch_def)
  next
    case (Inr v)
    with ms show ?thesis by (simp add: tryCatch_def)
  qed
qed

lemma growsCalls_andThen [intro!]:
  assumes "growsCalls m" and "\<And>v. growsCalls (f v)"
  shows "growsCalls (andThen m f)"
  unfolding growsCalls_def
  using growsCallsD [OF assms(1)] calls_andThen_prefix [of f m, OF assms(2)]
  by (meson prefix_order.trans)

lemma growsCalls_tryCatch [intro!]:
  assumes "growsCalls m" and "\<And>e. growsCalls (h e)"
  shows "growsCalls (tryCatch m h)"
  unfolding growsCalls_def
  using growsCallsD [OF assms(1)] calls_tryCatch_prefix [of h m, OF assms(2)]
  by (meson prefix_order.trans)

lemma calls_checkPermissions:
  "calls (snd (checkPermissions execSync s)) =
     calls s @ (shellCommand testScript, timeoutFor testScript) #
       (case execSync (length (calls s)) (shellCommand testScript) (timeoutFor testScript) of
          Inl _ \<Rightarrow> []
        | Inr _ \<Rightarrow> [(shellCommand contactsTestScript, timeoutFor contactsTestScript)])"
  by (simp add: checkPermissions_def executeAppleScript_def andThen_def tryCatch_def
      return'_def throw_def consoleError_def Let_def split: sum.split)

lemma checkPermissions_first_call:
  "prefix (calls s @ [(shellCommand testScript, timeoutFor testScript)])
     (calls (snd (checkPermissions execSync s)))"
  unfolding calls_checkPermissions by (simp add: prefix_def)

lemma first_call_andThen:
  assumes "\<And>v. growsCalls (f v)"
  shows "prefix (calls s @ [(shellCommand testScript, timeoutFor testScript)])
           (calls (snd (andThen (checkPermissions execSync) f s)))"
proof -
  have "prefix (calls (snd (checkPermissions execSync s)))
          (calls (snd (andThen (checkPermissions execSync) f s)))"
    using assms by (rule calls_andThen_prefix)
  with checkPermissions_first_call [of s execSync] show ?thesis
    by (rule prefix_order.trans)
qed

lemma growsCalls_searchAllContacts: "growsCalls (searchAllContacts execSync)"
  unfolding searchAllContacts_def Let_def by (intro growsCalls_andThen growsCalls_tryCatch) simp_all

lemma growsCalls_searchContactsMatching: "growsCalls (searchContactsMatching execSync q)"
  unfolding searchContactsMatching_def Let_def by (intro growsCalls_andThen growsCalls_tryCatch) simp_all

lemma searchContacts_first_call:
  "prefix (calls s @ [(shellCommand testScript, timeoutFor testScript)])
     (calls (snd (searchContacts execSync query s)))"
  unfolding searchContacts_def
  by (rule first_call_andThen, intro growsCalls_andThen)
     (simp_all add: growsCalls_searchAllContacts growsCalls_searchContactsMatching split: option.split)

lemma getContactByName_first_call:
  "prefix (calls s @ [(shellCommand testScript, timeoutFor testScript)])
     (calls (snd (getContactByName execSync nm exact s)))"
  unfolding getContactByName_def Let_def
  by (rule first_call_andThen, intro growsCalls_andThen growsCalls_tryCatch) simp_all

lemma testContactProcessing_first_call:
  "prefix (calls s @ [(shellCommand testScript, timeoutFor testScript)])
     (calls (snd (testContactProcessing execSync n s)))"
  unfolding testContactProcessing_def Let_def
  by (rule first_call_andThen, intro growsCalls_andThen growsCalls_tryCatch) simp_all

text \<open>
  Claim C9, as the code has it. The flag starts false. In \<open>getContactsData\<close> and
  \<open>getContactsDataUnlimited\<close>, with the flag false, a permission check that succeeds
  sets the flag and one that fails leaves it false and throws the check's error; with the
  flag true both run the fetch script and nothing else. No request resets the flag, and
  every request other than \<open>get_all_contacts\<close> leaves it as it is. \<open>searchContacts\<close>,
  \<open>getContactByName\<close> and \<open>testContactProcessing\<close> do not look at the flag: whatever
  its value, the first command they run is the permission check's.
\<close>

theorem permission_flag_cache:
  "\<not> permissionsChecked initialState
   \<and> (\<not> permissionsChecked s \<and> fst (checkPermissions execSync s) = Inr () \<longrightarrow>
        permissionsChecked (snd (getContactsData execSync s))
        \<and> permissionsChecked (snd (getContactsDataUnlimited execSync s)))
   \<and> (\<not> permissionsChecked s \<and> fst (checkPermissions execSync s) = Inl e \<longrightarrow>
        fst (getContactsData execSync s) = Inl e
        \<and> \<not> permissionsChecked (snd (getContactsData execSync s))
        \<and> fst (getContactsDataUnlimited execSync s) = Inl e
        \<and> \<not> permissionsChecked (snd (getContactsDataUnlimited execSync s)))
   \<and> (permissionsChecked s \<longrightarrow>
        calls (snd (getContactsData execSync s)) =
          calls s @ [(shellCommand contactsScript, timeoutFor contactsScript)]
        \<and> calls (snd (getContactsDataUnlimited execSync s)) =
          calls s @ [(shellCommand contactsScriptUnlimited, timeoutFor contactsScriptUnlimited)])
   \<and> (permissionsChecked s \<longrightarrow>
        permissionsChecked (snd (handleRequest execSync parseIntText jsonStringify request s)))
   \<and> ((\<forall>limit unlimited. request \<noteq> get_all_contacts limit unlimited) \<longrightarrow>
        permissionsChecked (snd (handleRequest execSync parseIntText jsonStringify request s)) =
        permissionsChecked s)
   \<and> prefix (calls s @ [(shellCommand testScript, timeoutFor testScript)])
        (calls (snd (searchContacts execSync query s)))
   \<and> prefix (calls s @ [(shellCommand testScript, timeoutFor testScript)])
        (calls (snd (getContactByName execSync nm exact_match s)))
   \<and> prefix (calls s @ [(shellCommand testScript, timeoutFor testScript)])
        (calls (snd (testContactProcessing execSync sample_size s)))"
proof -
  have init: "\<not> permissionsChecked initialState"
    by (simp add: initialState_def)
  have ok: "permissionsChecked (snd (getContactsData execSync s))
        \<and> permissionsChecked (snd (getContactsDataUnlimited execSync s))"
    if a: "\<not> permissionsChecked s" and b: "fst (checkPermissions execSync s) = Inr ()"
  proof -
    obtain s1 where cp: "checkPermissions execSync s = (Inr (), s1)"
      using b by (cases "checkPermissions execSync s") auto
    show ?thesis
      by (simp add: getContactsData_cached getContactsDataUnlimited_cached
          cachedCheck_ok [where check = "checkPermissions execSync", OF a cp] keepsFlagD [OF keepsFlag_fetch])
  qed
  have fail: "fst (getContactsData execSync s) = Inl e
        \<and> \<not> permissionsChecked (snd (getContactsData execSync s))
        \<and> fst (getContactsDataUnlimited execSync s) = Inl e
        \<and> \<not> permissionsChecked (snd (getContactsDataUnlimited execSync s))"
    if a: "\<not> permissionsChecked s" and b: "fst (checkPermissions execSync s) = Inl e"
  proof -
    obtain s1 where cp: "checkPermissions execSync s = (Inl e, s1)"
      using b by (cases "checkPermissions execSync s") auto
    have "permissionsChecked s1 = permissionsChecked s"
      using keepsFlagD [OF keepsFlag_checkPermissions, of execSync s] cp by simp
    then show ?thesis
      using a
      by (simp add: getContactsData_cached getContactsDataUnlimited_cached
          cachedCheck_fail [where check = "checkPermissions execSync", OF a cp])
  qed
  have skip: "calls (snd (getContactsData execSync s)) =
          calls s @ [(shellCommand contactsScript, timeoutFor contactsScript)]
        \<and> calls (snd (getContactsDataUnlimited execSync s)) =
          calls s @ [(shellCommand contactsScriptUnlimited, timeoutFor contactsScriptUnlimited)]"
    if "permissionsChecked s"
    using that
    by (simp add: getContactsData_cached getContactsDataUnlimited_cached cachedCheck_checked
        calls_fetch)
  have mono: "permissionsChecked (snd (handleRequest execSync parseIntText jsonStringify request s))"
    if "permissionsChecked s"
    unfolding handleRequest_def tryCatch_return_flag
    using that by (rule callTool_mono)
  have keep: "permissionsChecked (snd (handleRequest execSync parseIntText jsonStringify request s)) =
        permissionsChecked s"
    if "\<forall>limit unlimited. request \<noteq> get_all_contacts limit unlimited"
    unfolding handleRequest_def tryCatch_return_flag
    using callTool_keeps [OF that] by (simp add: keepsFlagD)
  from init ok fail skip mono keep
    searchContacts_first_call [of s execSync query]
    getContactByName_first_call [of s execSync nm exact_match]
    testContactProcessing_first_call [of s execSync sample_size]
  show ?thesis by blast
qed

text \<open>The definitions to unfold when a run is evaluated on a given machine.\<close>

lemmas run_defs = checkPermissions_def executeAppleScript_def andThen_def tryCatch_def
  return'_def throw_def consoleError_def getPermissionsChecked_def setPermissionsChecked_def
  Let_def

text \<open>
  C9 on a machine where the first command fails: the first fetch throws and leaves the
  flag false, the second passes the check and sets it, a later search keeps it.
\<close>

theorem permission_flag_cache_witness:
  "\<not> permissionsChecked initialState
   \<and> \<not> permissionsChecked (snd (getContactsData deniedThenGrantedShell initialState))
   \<and> permissionsChecked
        (snd (getContactsData deniedThenGrantedShell
               (snd (getContactsData deniedThenGrantedShell initialState))))
   \<and> permissionsChecked
        (snd (handleRequest deniedThenGrantedShell id (\<lambda>_. []) (search_contacts None)
          (snd (getContactsData deniedThenGrantedShell
               (snd (getContactsData deniedThenGrantedShell initialState))))))"
proof -
  let ?s1 = "snd (getContactsData deniedThenGrantedShell initialState)"
  let ?s2 = "snd (getContactsData deniedThenGrantedShell ?s1)"
  have h0: "\<not> permissionsChecked initialState"
    by (simp add: initialState_def)
  have c0: "fst (checkPermissions deniedThenGrantedShell initialState) =
            Inl (Error (js ''System Events not accessible''))"
    by (simp add: run_defs deniedThenGrantedShell_def initialState_def)
  have f1: "\<not> permissionsChecked ?s1"
    using permission_flag_cache
      [of initialState deniedThenGrantedShell "Error (js ''System Events not accessible'')"]
      h0 c0 by blast
  have c1: "fst (checkPermissions deniedThenGrantedShell ?s1) = Inr ()"
    by (simp add: run_defs getContactsData_def deniedThenGrantedShell_def initialState_def)
  have f2: "permissionsChecked ?s2"
    using permission_flag_cache [of ?s1 deniedThenGrantedShell] f1 c1 by blast
  have f3: "permissionsChecked
        (snd (handleRequest deniedThenGrantedShell id (\<lambda>_. []) (search_contacts None) ?s2))"
    using permission_flag_cache
      [of ?s2 deniedThenGrantedShell _ id "\<lambda>_. []" "search_contacts None"] f2 by blast
  from h0 f1 f2 f3 show ?thesis by blast
qed

text \<open>
  Claim C9 as stated fails for \<open>searchContacts\<close>: its permission check succeeds and the
  flag stays false, and with the flag already true it still runs both permission scripts
  before the search.
\<close>

theorem searchContacts_checks_every_time:
  \<open>fst (checkPermissions okShell initialState) = Inr ()
   \<and> \<not> permissionsChecked (snd (searchContacts okShell (Some (js ''Al'')) initialState))
   \<and> permissionsChecked (initialState\<lparr>permissionsChecked := True\<rparr>)
   \<and> map fst (calls (snd (searchContacts okShell (Some (js ''Al''))
                            (initialState\<lparr>permissionsChecked := True\<rparr>)))) =
       [shellCommand testScript, shellCommand contactsTestScript,
        shellCommand (js ''tell application "Contacts" to return name of (every person whose name contains "Al")'')]\<close>
  by (simp add: run_defs searchContacts_def searchContactsMatching_def okShell_def
      initialState_def truthy_def js_def DQUOTE_def)

text \<open>
  Claim C8. The reply of \<open>getContactNames\<close> does not depend on the limit: the one command
  it runs is the fixed script that asks for the names of persons 1, 2 and 3. With a limit
  of 5 the reply lists three names.
\<close>

theorem getContactNames_ignores_limit:
  "fst (getContactNames execSync limit s) = fst (getContactNames execSync None s)
   \<and> calls (snd (getContactNames execSync limit s)) =
       calls s @ [(shellCommand namesScript, timeoutFor namesScript)]
   \<and> fst (getContactNames namesReplyShell (Some 5) initialState) =
       Inr ([0xD83D, 0xDCDD] @ js '' First 3 contact names:'' @ [NL, NL]
            @ js ''1. Alice'' @ [NL] @ js ''2. Bob'' @ [NL] @ js ''3. Carol'' @ [NL, NL]
            @ js ''This tests basic contact field access without complex data extraction.'')"
proof -
  have 1: "fst (getContactNames execSync limit s) = fst (getContactNames execSync None s)"
    by (simp add: getContactNames_def run_defs split: sum.split)
  have 2: "calls (snd (getContactNames execSync limit s)) =
       calls s @ [(shellCommand namesScript, timeoutFor namesScript)]"
    by (simp add: getContactNames_def run_defs split: sum.split)
  have 3: "fst (getContactNames namesReplyShell (Some 5) initialState) =
       Inr ([0xD83D, 0xDCDD] @ js '' First 3 contact names:'' @ [NL, NL]
            @ js ''1. Alice'' @ [NL] @ js ''2. Bob'' @ [NL] @ js ''3. Carol'' @ [NL, NL]
            @ js ''This tests basic contact field access without complex data extraction.'')"
  proof -
    have t: "trim (js ''Alice'' @ CR # js ''Bob'' @ CR # js ''Carol'' @ [NL]) =
             js ''Alice'' @ CR # js ''Bob'' @ CR # js ''Carol''"
      by code_simp
    have n: "filter (\<lambda>nm. truthy (trim nm))
               (jsSplitRuns isCRLF (js ''Alice'' @ CR # js ''Bob'' @ CR # js ''Carol'')) =
             [js ''Alice'', js ''Bob'', js ''Carol'']"
      by code_simp
    have l: "jsJoin NL (numbered 0 [js ''Alice'', js ''Bob'', js ''Carol'']) =
             js ''1. Alice'' @ [NL] @ js ''2. Bob'' @ [NL] @ js ''3. Carol''"
      by code_simp
    have k: "js '' First '' @ showNat (Suc (Suc (Suc 0))) @ js '' contact names:'' =
             js '' First 3 contact names:''"
      by code_simp
    show ?thesis
      by (simp add: getContactNames_def run_defs namesReplyShell_def initialState_def t n l k
          del: jsJoin.simps numbered.simps)
  qed
  from 1 2 3 show ?thesis by blast
qed

text \<open>
  A tool call never throws past the dispatcher: whatever the tool and the machine do, the
  request handler returns a reply.
\<close>

theorem handleRequest_always_replies:
  "\<exists>text. fst (handleRequest execSync parseIntText jsonStringify request s) = Inr text"
proof -
  obtain r s1 where c: "callTool execSync parseIntText jsonStringify request s = (r, s1)"
    by (cases "callTool execSync parseIntText jsonStringify request s")
  show ?thesis
    by (cases r) (simp_all add: handleRequest_def tryCatch_def return'_def c)
qed

section \<open>Properties of isUpcomingBirthday\<close>

lemma msPerDay_value: "msPerDay = 86400000"
  by (simp add: msPerDay_def)

lemma ceilDiv_greater:
  assumes "n * d < a" and "0 < d"
  shows "n < ceilDiv a d"
proof -
  have eq: "d * ((- a) div d) + (- a) mod d = - a" by (rule mult_div_mod_eq)
  have r: "0 \<le> (- a) mod d" using assms(2) by simp
  have "d * n < a" using assms(1) by (simp add: mult.commute)
  with eq r have "d * ((- a) div d) + d * n < 0" by linarith
  then have "d * ((- a) div d + n) < 0" by (simp add: distrib_left)
  then have "(- a) div d + n < 0"
    using assms(2) by (simp add: mult_less_0_iff)
  then show ?thesis by (simp add: ceilDiv_def)
qed

lemma ceilDiv_after_window:
  assumes "n * msPerDay < a"
  shows "n < ceilDiv a msPerDay"
  using assms by (rule ceilDiv_greater) (simp add: msPerDay_value)

lemma isUpcomingBirthday_guard:
  "\<not> isUpcomingBirthday host birthdayText (Some 0)"
  "\<not> isUpcomingBirthday host birthdayText None"
  "\<not> isUpcomingBirthday host None days"
  "\<not> isUpcomingBirthday host (Some []) days"
  by (simp_all add: isUpcomingBirthday_def truthy_def split: option.split)

lemma isUpcomingBirthday_unparsable:
  "dateParse host b = None \<Longrightarrow> \<not> isUpcomingBirthday host (Some b) days"
  by (simp add: isUpcomingBirthday_def split: option.split)

lemma isUpcomingBirthday_after_window:
  assumes p: "dateParse host b = Some birthDate"
    and m: "makeDate host (getFullYear host (dateNow host)) (getMonth host birthDate)
              (getDate host birthDate) = Some (midnight + (n + 1) * msPerDay)"
    and t: "midnight \<le> dateNow host" "dateNow host < midnight + msPerDay"
    and n: "0 \<le> n"
  shows "\<not> isUpcomingBirthday host (Some b) (Some n)"
proof -
  have later: "\<not> midnight + (n + 1) * msPerDay < dateNow host"
  proof -
    have "0 \<le> n * msPerDay" using n by (simp add: msPerDay_value)
    then show ?thesis using t by (simp add: algebra_simps)
  qed
  have "n * msPerDay < midnight + (n + 1) * msPerDay - dateNow host"
    using t by (simp add: algebra_simps)
  then have "n < ceilDiv (midnight + (n + 1) * msPerDay - dateNow host) msPerDay"
    by (rule ceilDiv_after_window)
  then show ?thesis
    using p m later by (simp add: isUpcomingBirthday_def Let_def)
qed

lemma isUpcomingBirthday_after_window_next_year:
  assumes p: "dateParse host b = Some birthDate"
    and m: "makeDate host (getFullYear host (dateNow host)) (getMonth host birthDate)
              (getDate host birthDate) = Some passed"
    and r: "passed < dateNow host"
    and y: "setFullYear host passed (getFullYear host (dateNow host) + 1) =
              Some (midnight + (n + 1) * msPerDay)"
    and t: "dateNow host < midnight + msPerDay"
  shows "\<not> isUpcomingBirthday host (Some b) (Some n)"
proof -
  have "n * msPerDay < midnight + (n + 1) * msPerDay - dateNow host"
    using t by (simp add: algebra_simps)
  then have "n < ceilDiv (midnight + (n + 1) * msPerDay - dateNow host) msPerDay"
    by (rule ceilDiv_after_window)
  then show ?thesis
    using p m r y by (simp add: isUpcomingBirthday_def Let_def)
qed

text \<open>
  Claim C5, as the code has it. \<open>isUpcomingBirthday\<close> is false whenever the window is 0
  or absent, whatever the birthday; it is false for an absent, empty or unparsable
  birthday; and it is false when the next birthday starts \<open>n + 1\<close> days of 24 hours after
  the start of today, one day after a window of \<open>n\<close> days, be it this year's birthday or,
  when that one has passed, next year's.
\<close>

theorem isUpcomingBirthday_false_cases:
  "\<not> isUpcomingBirthday host birthdayText (Some 0)
   \<and> \<not> isUpcomingBirthday host birthdayText None
   \<and> \<not> isUpcomingBirthday host None days
   \<and> \<not> isUpcomingBirthday host (Some []) days
   \<and> (dateParse host b = None \<longrightarrow> \<not> isUpcomingBirthday host (Some b) days)
   \<and> (dateParse host b = Some birthDate
        \<and> makeDate host (getFullYear host (dateNow host)) (getMonth host birthDate)
             (getDate host birthDate) = Some (midnight + (n + 1) * msPerDay)
        \<and> midnight \<le> dateNow host \<and> dateNow host < midnight + msPerDay \<and> 0 \<le> n
        \<longrightarrow> \<not> isUpcomingBirthday host (Some b) (Some n))
   \<and> (dateParse host b = Some birthDate
        \<and> makeDate host (getFullYear host (dateNow host)) (getMonth host birthDate)
             (getDate host birthDate) = Some passed
        \<and> passed < dateNow host
        \<and> setFullYear host passed (getFullYear host (dateNow host) + 1) =
             Some (midnight + (n + 1) * msPerDay)
        \<and> dateNow host < midnight + msPerDay
        \<longrightarrow> \<not> isUpcomingBirthday host (Some b) (Some n))"
proof -
  have g: "\<not> isUpcomingBirthday host birthdayText (Some 0)"
    "\<not> isUpcomingBirthday host birthdayText None"
    "\<not> isUpcomingBirthday host None days"
    "\<not> isUpcomingBirthday host (Some []) days"
    by (rule isUpcomingBirthday_guard)+
  show ?thesis
    using g isUpcomingBirthday_unparsable [of host b days]
      isUpcomingBirthday_after_window [of host b birthDate midnight n]
      isUpcomingBirthday_after_window_next_year [of host b birthDate passed midnight n]
    by blast
qed

text \<open>
  C5 with a window of 2 days. At noon of 15 June 2024: 18 June is outside, a text the
  parser rejects is outside, 17 June is inside. At noon of 31 December 2024: 3 January is
  outside, 2 January is inside.
\<close>

theorem isUpcomingBirthday_false_cases_witness:
  "dateParse (utcHost noon15June2024) (js ''1990-06-18'') = Some (7473 * msPerDay)
   \<and> dateParse (utcHost noon15June2024) (js ''June 18'') = None
   \<and> \<not> isUpcomingBirthday (utcHost noon15June2024) (Some (js ''1990-06-18'')) (Some 2)
   \<and> \<not> isUpcomingBirthday (utcHost noon15June2024) (Some (js ''June 18'')) (Some 2)
   \<and> isUpcomingBirthday (utcHost noon15June2024) (Some (js ''1990-06-17'')) (Some 2)
   \<and> \<not> isUpcomingBirthday (utcHost noon31December2024) (Some (js ''1990-01-03'')) (Some 2)
   \<and> isUpcomingBirthday (utcHost noon31December2024) (Some (js ''1990-01-02'')) (Some 2)"
proof -
  let ?h = "utcHost noon15June2024"
  let ?d = "utcHost noon31December2024"
  have p: "dateParse ?h (js ''1990-06-18'') = Some (7473 * msPerDay)" by code_simp
  have u: "dateParse ?h (js ''June 18'') = None" by code_simp
  have m: "makeDate ?h (getFullYear ?h (dateNow ?h)) (getMonth ?h (7473 * msPerDay))
             (getDate ?h (7473 * msPerDay)) = Some (19889 * msPerDay + (2 + 1) * msPerDay)"
    by code_simp
  have t: "19889 * msPerDay \<le> dateNow ?h" "dateNow ?h < 19889 * msPerDay + msPerDay"
    by code_simp+
  have a: "\<not> isUpcomingBirthday ?h (Some (js ''1990-06-18'')) (Some 2)"
    using isUpcomingBirthday_false_cases
      [where host = ?h and b = "js ''1990-06-18''" and birthDate = "7473 * msPerDay"
         and midnight = "19889 * msPerDay" and n = 2] p m t
    by simp
  have b: "\<not> isUpcomingBirthday ?h (Some (js ''June 18'')) (Some 2)"
    using isUpcomingBirthday_false_cases
      [where host = ?h and b = "js ''June 18''" and days = "Some 2"] u
    by simp
  have c: "isUpcomingBirthday ?h (Some (js ''1990-06-17'')) (Some 2)" by code_simp
  have p': "dateParse ?d (js ''1990-01-03'') = Some (7307 * msPerDay)" by code_simp
  have m': "makeDate ?d (getFullYear ?d (dateNow ?d)) (getMonth ?d (7307 * msPerDay))
             (getDate ?d (7307 * msPerDay)) = Some (19725 * msPerDay)"
    by code_simp
  have r': "19725 * msPerDay < dateNow ?d" by code_simp
  have y': "setFullYear ?d (19725 * msPerDay) (getFullYear ?d (dateNow ?d) + 1) =
             Some (20088 * msPerDay + (2 + 1) * msPerDay)"
    by code_simp
  have t': "dateNow ?d < 20088 * msPerDay + msPerDay" by code_simp
  have d: "\<not> isUpcomingBirthday ?d (Some (js ''1990-01-03'')) (Some 2)"
    using isUpcomingBirthday_false_cases
      [where host = ?d and b = "js ''1990-01-03''" and birthDate = "7307 * msPerDay"
         and passed = "19725 * msPerDay" and midnight = "20088 * msPerDay" and n = 2]
      p' m' r' y' t'
    by simp
  have e: "isUpcomingBirthday ?d (Some (js ''1990-01-02'')) (Some 2)" by code_simp
  from p u a b c d e show ?thesis by blast
qed

text \<open>
  Claim C5 as stated fails: on 15 June 2024 a birthday of 15 June with a window of 0 days
  is not upcoming.
\<close>

theorem isUpcomingBirthday_today_window_zero:
  "dateParse (utcHost noon15June2024) (js ''1990-06-15'') = Some (7470 * msPerDay)
   \<and> getMonth (utcHost noon15June2024) (7470 * msPerDay) =
       getMonth (utcHost noon15June2024) (dateNow (utcHost noon15June2024))
   \<and> getDate (utcHost noon15June2024) (7470 * msPerDay) =
       getDate (utcHost noon15June2024) (dateNow (utcHost noon15June2024))
   \<and> \<not> isUpcomingBirthday (utcHost noon15June2024) (Some (js ''1990-06-15'')) (Some 0)"
  by code_simp

end
